theory Spec2Isabelle
  imports Complex_Main "HOL-Library.Char_ord" "HOL-Library.List_Lexorder" "HOL-Library.Option_ord"
begin

section \<open>Support-ticket analyzer: data model\<close>

text \<open>
  The analyzer of \<^verbatim>\<open>support_analyzer.py\<close> keeps its tickets in the SQLite table
  \<^verbatim>\<open>tickets\<close>. A date column holds a text \<^verbatim>\<open>YYYY-MM-DD\<close>; the model keeps its three
  numbers, whether or not they name a day of the calendar: what pandas and SQLite
  make of a text that is no date is part of the model (\<open>to_datetime\<close>,
  \<open>sqlite_date_ok\<close>). Python floats and SQLite \<^verbatim>\<open>REAL\<close> values are modelled by exact
  real numbers, Python integers by \<open>int\<close>.
\<close>

record date =
  year :: int
  month :: int
  day :: int

text \<open>
  One row of \<^verbatim>\<open>tickets\<close>, with the columns in the order of the \<^verbatim>\<open>INSERT\<close> statement.
  The three columns that \<^verbatim>\<open>insert_sample_tickets\<close> may fill with \<^verbatim>\<open>None\<close> are
  optional; the others always receive a string. The surrogate key \<^verbatim>\<open>id\<close> and the
  counter from which SQLite chooses it are not modelled: no computation of the
  analyzer reads them. The rows of a table are kept in insertion order.
\<close>

record ticket =
  ticket_id :: string
  fecha_creacion :: date
  fecha_resolucion :: "date option"
  categoria :: string
  prioridad :: string
  estado :: string
  agente_asignado :: string
  tiempo_resolucion_horas :: "real option"
  canal :: string
  satisfaccion_cliente :: "int option"
  descripcion :: string

text \<open>The dictionary that \<^verbatim>\<open>calculate_metrics\<close> builds and returns.\<close>

record metrics_dict =
  total_tickets :: int
  tickets_resueltos :: int
  tickets_abiertos :: int
  tasa_resolucion :: real
  tiempo_promedio_resolucion_horas :: real
  satisfaccion_promedio :: real
  sla_24h :: real
  tickets_por_categoria :: "string \<rightharpoonup> int"
  tickets_por_prioridad :: "string \<rightharpoonup> int"
  tickets_por_canal :: "string \<rightharpoonup> int"

datatype error =
  AttributeError | OperationalError | DatabaseError | ZeroDivisionError | ValueError

text \<open>
  The rollup table \<^verbatim>\<open>metricas_diarias\<close>; the analyzer creates it and never reads or
  writes a row of it.
\<close>

record metrica_diaria =
  fecha :: date
  md_tickets_abiertos :: int
  md_tickets_resueltos :: int
  md_tiempo_promedio_resolucion :: real
  md_satisfaccion_promedio :: real
  md_tickets_por_categoria :: string

text \<open>
  The database behind the connection: each of the two tables is absent (\<open>None\<close>) or
  holds its rows. The analyzer object holds the connection (\<open>None\<close> until
  \<^verbatim>\<open>connect_db\<close> has run) and the last metrics dictionary (\<open>None\<close> for the empty
  dictionary of \<^verbatim>\<open>__init__\<close>).
\<close>

record database =
  tickets :: "ticket list option"
  metricas_diarias :: "metrica_diaria list option"

record analyzer =
  db_path :: string
  conn :: "database option"
  metrics :: "metrics_dict option"

section \<open>Dates\<close>

text \<open>
  The days of the calendar as Python's \<^verbatim>\<open>datetime\<close> module defines them (years 1 to
  9999, a day that exists in its month), and the order of the calendar.
\<close>

definition DAYS_IN_MONTH :: "int list" where
  "DAYS_IN_MONTH = [-1, 31, 28, 31, 30, 31, 30, 31, 31, 30, 31, 30, 31]"

definition is_leap :: "int \<Rightarrow> bool" where
  "is_leap y = (y mod 4 = 0 \<and> (y mod 100 \<noteq> 0 \<or> y mod 400 = 0))"

definition days_in_month :: "int \<Rightarrow> int \<Rightarrow> int" where
  "days_in_month y m = (if m = 2 \<and> is_leap y then 29 else DAYS_IN_MONTH ! nat m)"

definition fecha_valida :: "date \<Rightarrow> bool" where
  "fecha_valida d =
     (1 \<le> year d \<and> year d \<le> 9999 \<and> 1 \<le> month d \<and> month d \<le> 12 \<and>
      1 \<le> day d \<and> day d \<le> days_in_month (year d) (month d))"

definition anterior :: "date \<Rightarrow> date \<Rightarrow> bool" where
  "anterior d1 d2 =
     (year d1 < year d2 \<or>
      year d1 = year d2 \<and> (month d1 < month d2 \<or> month d1 = month d2 \<and> day d1 < day d2))"

text \<open>
  \<^verbatim>\<open>pd.to_datetime\<close> turns a text into a nanosecond timestamp: the text must name a
  day of the calendar, and the day must lie in the range of such timestamps, from
  1677-09-22 to 2262-04-11. On any other text it raises (a \<^verbatim>\<open>ValueError\<close>).
\<close>

definition timestamp_ok :: "date \<Rightarrow> bool" where
  "timestamp_ok d =
     (fecha_valida d \<and> \<not> anterior d \<lparr>year = 1677, month = 9, day = 22\<rparr> \<and>
      \<not> anterior \<lparr>year = 2262, month = 4, day = 11\<rparr> d)"

text \<open>
  SQLite reads a text \<^verbatim>\<open>YYYY-MM-DD\<close> as a date when the year is 0 to 9999, the month
  1 to 12 and the day 1 to 31, counting the days past the end of a month into the
  next one; on any other text its date functions return \<^verbatim>\<open>NULL\<close>.
\<close>

definition sqlite_date_ok :: "date \<Rightarrow> bool" where
  "sqlite_date_ok d =
     (0 \<le> year d \<and> year d \<le> 9999 \<and> 1 \<le> month d \<and> month d \<le> 12 \<and>
      1 \<le> day d \<and> day d \<le> 31)"

section \<open>Metrics\<close>

text \<open>Python's \<^verbatim>\<open>a / b\<close> on integers: true division, raising on a zero divisor.\<close>

definition truediv :: "int \<Rightarrow> int \<Rightarrow> error + real" where
  "truediv a b = (if b = 0 then Inl ZeroDivisionError else Inr (real_of_int a / real_of_int b))"

text \<open>
  \<^verbatim>\<open>round(x, 2)\<close>: the nearest multiple of one hundredth, a tie going to the even
  one. The model rounds the exact value; the code rounds the binary float computed
  for it, which can fall on the other side when the exact value is a tie (the exact
  14.375 rounds to 14.38, the float computed for 23 / 160 * 100 to 14.37).
\<close>

definition rint :: "real \<Rightarrow> int" where
  "rint y =
     (let f = \<lfloor>y\<rfloor>; d = y - real_of_int f
      in if d < 1 / 2 then f else if 1 / 2 < d then f + 1 else if even f then f else f + 1)"

definition round2 :: "real \<Rightarrow> real" where
  "round2 x = real_of_int (rint (x * 100)) / 100"

text \<open>\<^verbatim>\<open>df['estado'].isin(['Resuelto', 'Cerrado'])\<close>, row by row.\<close>

definition es_resuelto :: "ticket \<Rightarrow> bool" where
  "es_resuelto t = (estado t = ''Resuelto'' \<or> estado t = ''Cerrado'')"

text \<open>\<^verbatim>\<open>df[df[col].notna()][col]\<close>: the values of a column that are present.\<close>

definition notna :: "'a option list \<Rightarrow> 'a list" where
  "notna xs = List.map_filter id xs"

text \<open>\<^verbatim>\<open>Series.mean()\<close> of a series that is not empty.\<close>

definition mean :: "real list \<Rightarrow> real" where
  "mean xs = sum_list xs / real (length xs)"

text \<open>\<^verbatim>\<open>Series.value_counts().to_dict()\<close>: each value that occurs, with its count.\<close>

definition value_counts :: "string list \<Rightarrow> (string \<rightharpoonup> int)" where
  "value_counts xs = (\<lambda>k. if k \<in> set xs then Some (int (count_list xs k)) else None)"

text \<open>
  The body of \<^verbatim>\<open>calculate_metrics\<close> once the rows are in the data frame \<^verbatim>\<open>df\<close>.
\<close>

definition calculate_metrics_df :: "ticket list \<Rightarrow> error + metrics_dict" where
  "calculate_metrics_df df =
     (let total = int (length df);
          resueltos = int (length (filter es_resuelto df));
          abiertos = total - resueltos;
          tiempos_resueltos = notna (map tiempo_resolucion_horas df);
          tiempo_promedio = (if length tiempos_resueltos > 0 then mean tiempos_resueltos else 0);
          satisfacciones = map real_of_int (notna (map satisfaccion_cliente df));
          satisfaccion = (if length satisfacciones > 0 then mean satisfacciones else 0)
      in case (if total > 0
               then (case truediv resueltos total of Inl e \<Rightarrow> Inl e | Inr q \<Rightarrow> Inr (q * 100))
               else Inr 0) of
           Inl e \<Rightarrow> Inl e
         | Inr tasa \<Rightarrow>
             (case (if length tiempos_resueltos > 0
                    then (case truediv (int (length (filter (\<lambda>h. h \<le> 24) tiempos_resueltos)))
                                       (int (length tiempos_resueltos)) of
                            Inl e \<Rightarrow> Inl e
                          | Inr q \<Rightarrow> Inr (q * 100))
                    else Inr 0) of
                Inl e \<Rightarrow> Inl e
              | Inr sla \<Rightarrow>
                  Inr \<lparr>total_tickets = total,
                       tickets_resueltos = resueltos,
                       tickets_abiertos = abiertos,
                       tasa_resolucion = round2 tasa,
                       tiempo_promedio_resolucion_horas = round2 tiempo_promedio,
                       satisfaccion_promedio = round2 satisfaccion,
                       sla_24h = round2 sla,
                       tickets_por_categoria = value_counts (map categoria df),
                       tickets_por_prioridad = value_counts (map prioridad df),
                       tickets_por_canal = value_counts (map canal df)\<rparr>))"

text \<open>
  \<^verbatim>\<open>df[col] = pd.to_datetime(df[col])\<close> on a date column: every text that is
  present must be a timestamp (a missing one becomes \<^verbatim>\<open>NaT\<close>), else the call raises.
\<close>

definition to_datetime :: "date option list \<Rightarrow> error + unit" where
  "to_datetime col = (if list_all timestamp_ok (notna col) then Inr () else Inl ValueError)"

text \<open>
  \<^verbatim>\<open>calculate_metrics\<close>: reads every row of \<^verbatim>\<open>tickets\<close> through the connection,
  converts the two date columns, computes the dictionary, stores it in
  \<^verbatim>\<open>self.metrics\<close> and returns it.
\<close>

definition calculate_metrics :: "analyzer \<Rightarrow> error + (metrics_dict \<times> analyzer)" where
  "calculate_metrics self =
     (case conn self of
        None \<Rightarrow> Inl AttributeError
      | Some db \<Rightarrow>
          (case tickets db of
             None \<Rightarrow> Inl DatabaseError
           | Some df \<Rightarrow>
               (case to_datetime (map (\<lambda>t. Some (fecha_creacion t)) df) of
                  Inl e \<Rightarrow> Inl e
                | Inr _ \<Rightarrow>
                    (case to_datetime (map fecha_resolucion df) of
                       Inl e \<Rightarrow> Inl e
                     | Inr _ \<Rightarrow>
                         (case calculate_metrics_df df of
                            Inl e \<Rightarrow> Inl e
                          | Inr m \<Rightarrow> Inr (m, self\<lparr>metrics := Some m\<rparr>))))))"

text \<open>The rows whose two date columns \<^verbatim>\<open>pd.to_datetime\<close> accepts.\<close>

definition fechas_ok :: "ticket \<Rightarrow> bool" where
  "fechas_ok t =
     (timestamp_ok (fecha_creacion t) \<and>
      (case fecha_resolucion t of None \<Rightarrow> True | Some d \<Rightarrow> timestamp_ok d))"

section \<open>Ticket store\<close>

text \<open>
  \<^verbatim>\<open>create_tables\<close>: two \<^verbatim>\<open>CREATE TABLE IF NOT EXISTS\<close> statements through the
  connection's cursor. A table that exists is left as it is; an absent one is
  created empty. Without a connection \<^verbatim>\<open>self.conn.cursor()\<close> raises.
\<close>

definition create_table_if_not_exists :: "'a list option \<Rightarrow> 'a list option" where
  "create_table_if_not_exists tbl = (case tbl of None \<Rightarrow> Some [] | Some rows \<Rightarrow> Some rows)"

definition create_tables :: "analyzer \<Rightarrow> error + analyzer" where
  "create_tables self =
     (case conn self of
        None \<Rightarrow> Inl AttributeError
      | Some db \<Rightarrow>
          Inr (self\<lparr>conn :=
                 Some (db\<lparr>tickets := create_table_if_not_exists (tickets db),
                          metricas_diarias := create_table_if_not_exists (metricas_diarias db)\<rparr>)\<rparr>))"

text \<open>The tables that exist in a database, by name.\<close>

definition schema :: "database \<Rightarrow> string list" where
  "schema db =
     (if tickets db = None then [] else [''tickets'']) @
     (if metricas_diarias db = None then [] else [''metricas_diarias''])"

text \<open>
  \<^verbatim>\<open>INSERT OR IGNORE INTO tickets\<close>: the column \<^verbatim>\<open>ticket_id\<close> is declared
  \<^verbatim>\<open>UNIQUE\<close>, so a row whose \<^verbatim>\<open>ticket_id\<close> is already stored is skipped; any other
  row is appended.
\<close>

definition insert_or_ignore :: "ticket \<Rightarrow> ticket list \<Rightarrow> ticket list" where
  "insert_or_ignore t rows =
     (if ticket_id t \<in> set (map ticket_id rows) then rows else rows @ [t])"

text \<open>
  The \<^verbatim>\<open>cursor.execute\<close> calls of the loop of \<^verbatim>\<open>insert_sample_tickets\<close>, one per
  ticket, in order. Each raises when the table \<^verbatim>\<open>tickets\<close> does not exist.
\<close>

fun execute_inserts :: "ticket list \<Rightarrow> database \<Rightarrow> error + database" where
  "execute_inserts [] db = Inr db"
| "execute_inserts (t # ts) db =
     (case tickets db of
        None \<Rightarrow> Inl OperationalError
      | Some rows \<Rightarrow> execute_inserts ts (db\<lparr>tickets := Some (insert_or_ignore t rows)\<rparr>))"

section \<open>Sample data generator\<close>

text \<open>
  Decimal text of a natural number, and \<^verbatim>\<open>%0wd\<close>: the same, padded with zeros on
  the left up to width \<open>w\<close>.
\<close>

fun decimal :: "nat \<Rightarrow> string" where
  "decimal n = (if n < 10 then [''0123456789'' ! n] else decimal (n div 10) @ [''0123456789'' ! (n mod 10)])"

definition zfill :: "nat \<Rightarrow> string \<Rightarrow> string" where
  "zfill w s = replicate (w - length s) CHR ''0'' @ s"

text \<open>The character of a decimal digit, as \<open>decimal\<close> writes it.\<close>

definition digito :: "nat \<Rightarrow> char" where
  "digito k = ''0123456789'' ! k"

text \<open>
  A \<^verbatim>\<open>datetime\<close> counts microseconds; the model takes their number since the
  midnight that ends day 0 of the proleptic Gregorian calendar (day 1 is
  0001-01-01), so that the quotient by the microseconds of a day is the ordinal of
  the date. \<open>ord2ymd\<close> is the calendar conversion of Python's \<^verbatim>\<open>datetime\<close> module;
  \<^verbatim>\<open>strftime('%Y-%m-%d')\<close> keeps the date of a \<^verbatim>\<open>datetime\<close>. A \<^verbatim>\<open>timedelta\<close> is a
  number of microseconds too: \<^verbatim>\<open>timedelta(hours=h)\<close> rounds to the nearest one. The
  clock is taken within the years that \<^verbatim>\<open>datetime\<close> can hold.
\<close>

definition microseconds_per_day :: int where
  "microseconds_per_day = 86400000000"

definition timedelta_days :: "int \<Rightarrow> int" where
  "timedelta_days n = n * microseconds_per_day"

definition timedelta_hours :: "real \<Rightarrow> int" where
  "timedelta_hours h = rint (h * 3600000000)"

definition DAYS_BEFORE_MONTH :: "int list" where
  "DAYS_BEFORE_MONTH = [-1, 0, 31, 59, 90, 120, 151, 181, 212, 243, 273, 304, 334]"

definition ord2ymd :: "int \<Rightarrow> date" where
  "ord2ymd ordinal =
     (let n = ordinal - 1;
          n400 = n div 146097; n = n mod 146097;
          y = n400 * 400 + 1;
          n100 = n div 36524; n = n mod 36524;
          n4 = n div 1461; n = n mod 1461;
          n1 = n div 365; n = n mod 365;
          y = y + n100 * 100 + n4 * 4 + n1
      in if n1 = 4 \<or> n100 = 4 then \<lparr>year = y - 1, month = 12, day = 31\<rparr>
         else
           (let leapyear = (n1 = 3 \<and> (n4 \<noteq> 24 \<or> n100 = 3));
                m = (n + 50) div 32;
                preceding = DAYS_BEFORE_MONTH ! nat m + (if m > 2 \<and> leapyear then 1 else 0)
            in if preceding > n
               then (let m = m - 1;
                         preceding = preceding
                           - (DAYS_IN_MONTH ! nat m + (if m = 2 \<and> leapyear then 1 else 0))
                     in \<lparr>year = y, month = m, day = n - preceding + 1\<rparr>)
               else \<lparr>year = y, month = m, day = n - preceding + 1\<rparr>))"

definition strftime_Ymd :: "int \<Rightarrow> date" where
  "strftime_Ymd t = ord2ymd (t div microseconds_per_day)"

text \<open>
  \<^verbatim>\<open>np.random.choice(xs)\<close> draws an index below \<^verbatim>\<open>len(xs)\<close>;
  \<^verbatim>\<open>np.random.choice(xs, p=ps)\<close> draws a uniform number \<open>u\<close> of \<open>[0, 1)\<close> and takes the
  position where \<open>u\<close> falls in the normalised cumulative sums of \<open>ps\<close>.
\<close>

definition choice :: "'a list \<Rightarrow> nat \<Rightarrow> 'a" where
  "choice xs i = xs ! i"

fun cumsum_from :: "real \<Rightarrow> real list \<Rightarrow> real list" where
  "cumsum_from acc [] = []"
| "cumsum_from acc (p # ps) = (acc + p) # cumsum_from (acc + p) ps"

definition choice_p :: "'a list \<Rightarrow> real list \<Rightarrow> real \<Rightarrow> 'a" where
  "choice_p xs ps u =
     (let cdf = cumsum_from 0 ps; cdf = map (\<lambda>c. c / last cdf) cdf
      in xs ! length (takeWhile (\<lambda>c. c \<le> u) cdf))"

text \<open>
  The pseudorandom source is an input of the model: one record per ticket with the
  values drawn for it, in the order in which the loop draws them (the satisfaction
  is drawn for resolved tickets only). \<open>sorteo_ok\<close> states the ranges of the numpy
  generators that produce them.
\<close>

record sorteo =
  r_dias :: int
  r_tiempo :: real
  r_resuelto :: real
  r_estado :: real
  r_satisfaccion :: int
  r_categoria :: nat
  r_prioridad :: real
  r_agente :: nat
  r_canal :: nat

definition sorteo_ok :: "sorteo \<Rightarrow> bool" where
  "sorteo_ok s =
     (0 \<le> r_dias s \<and> r_dias s < 60 \<and> 0 \<le> r_tiempo s \<and>
      0 \<le> r_resuelto s \<and> r_resuelto s < 1 \<and> 0 \<le> r_estado s \<and> r_estado s < 1 \<and>
      1 \<le> r_satisfaccion s \<and> r_satisfaccion s < 6 \<and> r_categoria s < 6 \<and>
      0 \<le> r_prioridad s \<and> r_prioridad s < 1 \<and> r_agente s < 4 \<and> r_canal s < 5)"

definition categorias :: "string list" where
  "categorias = [''Hardware'', ''Software'', ''Red'', ''Acceso'', ''Email'', ''Impresora'']"

text \<open>The accented letters are written by their code points.\<close>

definition prioridades :: "string list" where
  "prioridades = [''Baja'', ''Media'', ''Alta'', ''Cr'' @ [CHR 0xED] @ ''tica'']"

definition canales :: "string list" where
  "canales = [''Email'', ''Tel'' @ [CHR 0xE9] @ ''fono'', ''Chat'', ''Portal'', ''Slack'']"

definition agentes :: "string list" where
  "agentes = [''Agente1'', ''Agente2'', ''Agente3'', ''Agente4'']"

text \<open>
  One round of the loop of \<^verbatim>\<open>insert_sample_tickets\<close>: the tuple bound to the
  \<^verbatim>\<open>INSERT\<close> statement for index \<open>i\<close>.
\<close>

definition sample_ticket :: "int \<Rightarrow> nat \<Rightarrow> sorteo \<Rightarrow> ticket" where
  "sample_ticket base_date i s =
     (let creacion = base_date + timedelta_days (r_dias s);
          tiempo_resolucion = r_tiempo s;
          (resolucion, est) =
            (if r_resuelto s > 0.2
             then (Some (creacion + timedelta_hours tiempo_resolucion),
                   choice_p [''Resuelto'', ''Cerrado''] [0.7, 0.3] (r_estado s))
             else (None, choice_p [''Abierto'', ''En Progreso''] [0.3, 0.7] (r_estado s)));
          satisfaccion = (if resolucion \<noteq> None then Some (r_satisfaccion s) else None)
      in \<lparr>ticket_id = ''TICK-'' @ zfill 4 (decimal (i + 1)),
          fecha_creacion = strftime_Ymd creacion,
          fecha_resolucion = map_option strftime_Ymd resolucion,
          categoria = choice categorias (r_categoria s),
          prioridad = choice_p prioridades [0.3, 0.4, 0.2, 0.1] (r_prioridad s),
          estado = est,
          agente_asignado = choice agentes (r_agente s),
          tiempo_resolucion_horas = (if resolucion \<noteq> None then Some tiempo_resolucion else None),
          canal = choice canales (r_canal s),
          satisfaccion_cliente = satisfaccion,
          descripcion = ''Ticket de ejemplo '' @ decimal (i + 1)\<rparr>)"

definition sample_tickets :: "int \<Rightarrow> sorteo list \<Rightarrow> ticket list" where
  "sample_tickets base_date ds = map (\<lambda>(i, s). sample_ticket base_date i s) (enumerate 0 ds)"

text \<open>
  \<^verbatim>\<open>insert_sample_tickets\<close> with the clock reading \<open>now\<close> and the draws \<open>ds\<close>, one per
  ticket (\<^verbatim>\<open>n_tickets\<close> is their number).
\<close>

definition insert_sample_tickets :: "analyzer \<Rightarrow> int \<Rightarrow> sorteo list \<Rightarrow> error + analyzer" where
  "insert_sample_tickets self now ds =
     (case conn self of
        None \<Rightarrow> Inl AttributeError
      | Some db \<Rightarrow>
          (case execute_inserts (sample_tickets (now - timedelta_days 60) ds) db of
             Inl e \<Rightarrow> Inl e
           | Inr db' \<Rightarrow> Inr (self\<lparr>conn := Some db'\<rparr>)))"

section \<open>Weekly trend of the SQL report\<close>

text \<open>
  The third query of \<^verbatim>\<open>generate_sql_report\<close> groups the tickets by
  \<^verbatim>\<open>strftime('%Y-%W', fecha_creacion)\<close>. SQLite computes the day number of a date
  that it accepts (\<open>julian_day\<close>, its \<^verbatim>\<open>computeJD\<close>; day numbers divisible by 7 are
  Mondays), and \<^verbatim>\<open>%W\<close> is the week of the year, 00 to 53, where week 01 starts on
  the first Monday of the year. On a text that it does not accept as a date the
  key is \<^verbatim>\<open>NULL\<close>, here \<open>None\<close>.
\<close>

definition julian_day :: "date \<Rightarrow> int" where
  "julian_day d =
     (let (Y, M) = (if month d \<le> 2 then (year d - 1, month d + 12) else (year d, month d));
          A = Y div 100;
          B = 2 - A + A div 4;
          X1 = 36525 * (Y + 4716) div 100;
          X2 = 306001 * (M + 1) div 10000
      in X1 + X2 + day d + B - 1524)"

definition strftime_W :: "date \<Rightarrow> int" where
  "strftime_W d =
     (let nDay = julian_day d - julian_day (d\<lparr>month := 1, day := 1\<rparr>);
          wd = julian_day d mod 7
      in (nDay + 7 - wd) div 7)"

definition strftime_YW :: "date \<Rightarrow> string" where
  "strftime_YW d =
     zfill 4 (decimal (nat (year d))) @ ''-'' @ zfill 2 (decimal (nat (strftime_W d)))"

definition semana :: "ticket \<Rightarrow> string option" where
  "semana t =
     (if sqlite_date_ok (fecha_creacion t) then Some (strftime_YW (fecha_creacion t)) else None)"

text \<open>
  \<^verbatim>\<open>GROUP BY semana ORDER BY semana DESC LIMIT 8\<close>: one row per key that occurs,
  with \<^verbatim>\<open>COUNT(*)\<close> and the count of the rows in state \<^verbatim>\<open>Resuelto\<close> or
  \<^verbatim>\<open>Cerrado\<close>, the keys in descending order of their text, the first eight rows.
  The rows without a key form one group, and \<^verbatim>\<open>NULL\<close> sorts below every text.
\<close>

definition tendencia_semanal :: "ticket list \<Rightarrow> (string option \<times> int \<times> int) list" where
  "tendencia_semanal rows =
     take 8
       (map (\<lambda>s. (s,
                  int (length (filter (\<lambda>t. semana t = s) rows)),
                  int (length (filter (\<lambda>t. semana t = s \<and> es_resuelto t) rows))))
            (rev (sort (remdups (map semana rows)))))"

text \<open>
  The weekly part of \<^verbatim>\<open>generate_sql_report\<close>, through the connection. (The two
  other queries of the method order their groups by a count and leave the order of
  equal counts to SQLite; they are not modelled.)
\<close>

definition reporte_semanal :: "analyzer \<Rightarrow> error + (string option \<times> int \<times> int) list" where
  "reporte_semanal self =
     (case conn self of
        None \<Rightarrow> Inl AttributeError
      | Some db \<Rightarrow>
          (case tickets db of
             None \<Rightarrow> Inl OperationalError
           | Some rows \<Rightarrow> Inr (tendencia_semanal rows)))"

text \<open>
  For comparison, the week of ISO 8601: weeks run from Monday to Sunday whatever the
  year, so the ISO week of a date is identified by the day number of its Monday.
\<close>

definition iso_week_monday :: "date \<Rightarrow> int" where
  "iso_week_monday d = julian_day d - julian_day d mod 7"

section \<open>Example data\<close>

text \<open>Concrete tickets and analyzer objects on which the theorems below are instantiated.\<close>

definition ticket_ejemplo :: "string \<Rightarrow> string \<Rightarrow> real option \<Rightarrow> int option \<Rightarrow> ticket" where
  "ticket_ejemplo tid est horas sat =
     \<lparr>ticket_id = tid,
      fecha_creacion = \<lparr>year = 2024, month = 3, day = 4\<rparr>,
      fecha_resolucion = (if horas = None then None else Some \<lparr>year = 2024, month = 3, day = 5\<rparr>),
      categoria = ''Hardware'', prioridad = ''Media'', estado = est,
      agente_asignado = ''Agente1'', tiempo_resolucion_horas = horas, canal = ''Email'',
      satisfaccion_cliente = sat, descripcion = ''Ticket de ejemplo''\<rparr>"

definition cinco_tickets :: "ticket list" where
  "cinco_tickets =
     [ticket_ejemplo ''TICK-0001'' ''Resuelto'' (Some 10) (Some 5),
      ticket_ejemplo ''TICK-0002'' ''Cerrado'' (Some 20) (Some 4),
      ticket_ejemplo ''TICK-0003'' ''Resuelto'' (Some 30) (Some 3),
      ticket_ejemplo ''TICK-0004'' ''Cerrado'' (Some 50) (Some 2),
      ticket_ejemplo ''TICK-0005'' ''En Progreso'' None None]"

definition analyzer_con :: "ticket list \<Rightarrow> analyzer" where
  "analyzer_con df =
     \<lparr>db_path = ''support_tickets.db'',
      conn = Some \<lparr>tickets = Some df, metricas_diarias = Some []\<rparr>,
      metrics = None\<rparr>"

definition metrics_cero :: metrics_dict where
  "metrics_cero =
     \<lparr>total_tickets = 0, tickets_resueltos = 0, tickets_abiertos = 0, tasa_resolucion = 0,
      tiempo_promedio_resolucion_horas = 0, satisfaccion_promedio = 0, sla_24h = 0,
      tickets_por_categoria = Map.empty, tickets_por_prioridad = Map.empty,
      tickets_por_canal = Map.empty\<rparr>"

definition sorteo_resuelto :: sorteo where
  "sorteo_resuelto =
     \<lparr>r_dias = 12, r_tiempo = 30, r_resuelto = 0.5, r_estado = 0.9, r_satisfaccion = 4,
      r_categoria = 2, r_prioridad = 0.35, r_agente = 3, r_canal = 1\<rparr>"

definition sorteo_abierto :: sorteo where
  "sorteo_abierto =
     \<lparr>r_dias = 59, r_tiempo = 7.5, r_resuelto = 0.1, r_estado = 0.6, r_satisfaccion = 1,
      r_categoria = 0, r_prioridad = 0.95, r_agente = 0, r_canal = 4\<rparr>"

definition ticket_creado :: "string \<Rightarrow> date \<Rightarrow> string \<Rightarrow> ticket" where
  "ticket_creado tid d est = (ticket_ejemplo tid est None None)\<lparr>fecha_creacion := d\<rparr>"

definition tickets_fin_de_anio :: "ticket list" where
  "tickets_fin_de_anio =
     [ticket_creado ''TICK-0001'' \<lparr>year = 2022, month = 12, day = 31\<rparr> ''Cerrado'',
      ticket_creado ''TICK-0002'' \<lparr>year = 2023, month = 1, day = 1\<rparr> ''Abierto'']"

definition nueve_semanas :: "ticket list" where
  "nueve_semanas =
     [ticket_creado ''TICK-0001'' \<lparr>year = 2024, month = 1, day = 1\<rparr> ''Cerrado'',
      ticket_creado ''TICK-0002'' \<lparr>year = 2024, month = 1, day = 8\<rparr> ''Abierto'',
      ticket_creado ''TICK-0003'' \<lparr>year = 2024, month = 1, day = 15\<rparr> ''Resuelto'',
      ticket_creado ''TICK-0004'' \<lparr>year = 2024, month = 1, day = 22\<rparr> ''Abierto'',
      ticket_creado ''TICK-0005'' \<lparr>year = 2024, month = 1, day = 29\<rparr> ''Cerrado'',
      ticket_creado ''TICK-0006'' \<lparr>year = 2024, month = 2, day = 5\<rparr> ''Abierto'',
      ticket_creado ''TICK-0007'' \<lparr>year = 2024, month = 2, day = 12\<rparr> ''Resuelto'',
      ticket_creado ''TICK-0008'' \<lparr>year = 2024, month = 2, day = 19\<rparr> ''Abierto'',
      ticket_creado ''TICK-0009'' \<lparr>year = 2024, month = 2, day = 26\<rparr> ''Cerrado'']"

section \<open>Properties of the metrics\<close>

lemma rint_nonneg: "0 \<le> y \<Longrightarrow> 0 \<le> rint y"
  by (simp add: rint_def Let_def)

lemma rint_le: 
  assumes h: "y \<le> real_of_int n" shows "rint y \<le> n"
proof -
  have fl: "\<lfloor>y\<rfloor> \<le> n" using h by (simp add: floor_le_iff) 
  show ?thesis
  proof (cases "\<lfloor>y\<rfloor> = n")
    case True
    then have "y - real_of_int \<lfloor>y\<rfloor> \<le> 0" using h by simp
    then show ?thesis using True by (simp add: rint_def Let_def)
  next
    case False
    then have "\<lfloor>y\<rfloor> + 1 \<le> n" using fl by simp
    then show ?thesis using fl by (simp add: rint_def Let_def)
  qed
qed

lemma round2_bounds: "0 \<le> x \<Longrightarrow> x \<le> 100 \<Longrightarrow> 0 \<le> round2 x \<and> round2 x \<le> 100"
  using rint_nonneg[of "x * 100"] rint_le[of "x * 100" 10000]
  by (simp add: round2_def)

lemma round2_zero: "round2 0 = 0"
  by (simp add: round2_def rint_def)

text \<open>The guards keep both divisions away from zero: the body never raises.\<close>

lemma calculate_metrics_df_Inr:
  "calculate_metrics_df df =
     Inr \<lparr>total_tickets = int (length df),
          tickets_resueltos = int (length (filter es_resuelto df)),
          tickets_abiertos = int (length df) - int (length (filter es_resuelto df)),
          tasa_resolucion =
            round2 (if df = [] then 0
                    else real (length (filter es_resuelto df)) / real (length df) * 100),
          tiempo_promedio_resolucion_horas =
            round2 (if notna (map tiempo_resolucion_horas df) = [] then 0
                    else mean (notna (map tiempo_resolucion_horas df))),
          satisfaccion_promedio =
            round2 (if notna (map satisfaccion_cliente df) = [] then 0
                    else mean (map real_of_int (notna (map satisfaccion_cliente df)))),
          sla_24h =
            round2 (if notna (map tiempo_resolucion_horas df) = [] then 0
                    else real (length (filter (\<lambda>h. h \<le> 24) (notna (map tiempo_resolucion_horas df))))
                         / real (length (notna (map tiempo_resolucion_horas df))) * 100),
          tickets_por_categoria = value_counts (map categoria df),
          tickets_por_prioridad = value_counts (map prioridad df),
          tickets_por_canal = value_counts (map canal df)\<rparr>"
  by (simp add: calculate_metrics_df_def Let_def truediv_def)

lemma notna_simps: "notna [] = []" "notna (None # xs) = notna xs" "notna (Some x # xs) = x # notna xs"
  by (simp_all add: notna_def List.map_filter_simps)

text \<open>
  The two conversions of \<^verbatim>\<open>pd.to_datetime\<close> succeed exactly on the tables whose date
  columns hold timestamps; then the method returns, and otherwise it raises.
\<close>

lemma to_datetime_creacion:
  "(to_datetime (map (\<lambda>t. Some (fecha_creacion t)) df) = Inr ()) =
   list_all (\<lambda>t. timestamp_ok (fecha_creacion t)) df"
  by (induction df) (auto simp add: to_datetime_def notna_simps)

lemma to_datetime_resolucion:
  "(to_datetime (map fecha_resolucion df) = Inr ()) =
   list_all (\<lambda>t. case fecha_resolucion t of None \<Rightarrow> True | Some d \<Rightarrow> timestamp_ok d) df"
proof (induction df)
  case Nil
  then show ?case by (simp add: to_datetime_def notna_simps)
next
  case (Cons t df)
  then show ?case
    by (cases "fecha_resolucion t") (auto simp add: to_datetime_def notna_simps)
qed

lemma to_datetime_fechas_ok:
  "(to_datetime (map (\<lambda>t. Some (fecha_creacion t)) df) = Inr () \<and>
    to_datetime (map fecha_resolucion df) = Inr ()) = list_all fechas_ok df"
  unfolding to_datetime_creacion to_datetime_resolucion
  by (induction df) (auto simp add: fechas_ok_def)

lemma to_datetime_cases: "to_datetime col = Inr () \<or> to_datetime col = Inl ValueError"
  by (simp add: to_datetime_def)

lemma calculate_metrics_on:
  assumes "conn self = Some db" and "tickets db = Some df" and "list_all fechas_ok df"
    and "calculate_metrics_df df = Inr m"
  shows "calculate_metrics self = Inr (m, self\<lparr>metrics := Some m\<rparr>)"
proof -
  have "to_datetime (map (\<lambda>t. Some (fecha_creacion t)) df) = Inr ()"
       "to_datetime (map fecha_resolucion df) = Inr ()"
    using assms(3) to_datetime_fechas_ok[of df] by simp_all
  then show ?thesis
    using assms(1,2,4) by (simp add: calculate_metrics_def)
qed

lemma calculate_metrics_raises:
  assumes "conn self = Some db" and "tickets db = Some df" and "\<not> list_all fechas_ok df"
  shows "calculate_metrics self = Inl ValueError"
proof -
  have "to_datetime (map (\<lambda>t. Some (fecha_creacion t)) df) = Inl ValueError \<or>
        to_datetime (map fecha_resolucion df) = Inl ValueError"
    using assms(3) to_datetime_fechas_ok[of df]
      to_datetime_cases[of "map (\<lambda>t. Some (fecha_creacion t)) df"]
      to_datetime_cases[of "map fecha_resolucion df"]
    by auto
  then show ?thesis
    using assms(1,2) to_datetime_cases[of "map (\<lambda>t. Some (fecha_creacion t)) df"]
    by (auto simp add: calculate_metrics_def)
qed

lemma calculate_metrics_returned:
  assumes "conn self = Some db" and "tickets db = Some df"
    and "calculate_metrics self = Inr (m, self')"
  shows "list_all fechas_ok df \<and> calculate_metrics_df df = Inr m \<and>
         self' = self\<lparr>metrics := Some m\<rparr>"
proof -
  have ok: "list_all fechas_ok df"
    using calculate_metrics_raises[OF assms(1,2)] assms(3) by auto
  obtain m' where m': "calculate_metrics_df df = Inr m'"
    by (simp add: calculate_metrics_df_Inr)
  show ?thesis
    using calculate_metrics_on[OF assms(1,2) ok m'] assms(3) m' ok by simp
qed

text \<open>A table with a ticket dated 2023-02-30: the conversion raises.\<close>

lemma calculate_metrics_no_date:
  "calculate_metrics
     (analyzer_con [ticket_creado ''TICK-0001'' \<lparr>year = 2023, month = 2, day = 30\<rparr> ''Abierto'']) =
   Inl ValueError"
  by (simp add: calculate_metrics_def analyzer_con_def ticket_creado_def ticket_ejemplo_def
        to_datetime_def notna_simps timestamp_ok_def fecha_valida_def days_in_month_def
        DAYS_IN_MONTH_def is_leap_def)

lemma timestamp_ok_ejemplo:
  "timestamp_ok \<lparr>year = 2024, month = 3, day = 4\<rparr>"
  "timestamp_ok \<lparr>year = 2024, month = 3, day = 5\<rparr>"
  by (simp_all add: timestamp_ok_def fecha_valida_def anterior_def days_in_month_def
        DAYS_IN_MONTH_def)

lemma fechas_ok_cinco_tickets: "list_all fechas_ok cinco_tickets"
  by (simp add: cinco_tickets_def ticket_ejemplo_def fechas_ok_def timestamp_ok_ejemplo)

text \<open>
  Claim C1. When the table holds five tickets, four of them resolved with resolution
  times 10, 20, 30 and 50 hours and satisfactions 5, 4, 3 and 2, and one open without
  either value, their dates being dates, \<^verbatim>\<open>calculate_metrics\<close> returns total 5,
  resolved 4, open 1, resolution rate 80.0, mean resolution time 27.5, mean
  satisfaction 3.5 and SLA rate 50.0.
\<close>

theorem scenario_five_tickets:
  assumes "conn self = Some db" and "tickets db = Some [t1, t2, t3, t4, t5]"
    and "list_all fechas_ok [t1, t2, t3, t4, t5]"
    and "es_resuelto t1" "es_resuelto t2" "es_resuelto t3" "es_resuelto t4" "\<not> es_resuelto t5"
    and "map tiempo_resolucion_horas [t1, t2, t3, t4, t5] = [Some 10, Some 20, Some 30, Some 50, None]"
    and "map satisfaccion_cliente [t1, t2, t3, t4, t5] = [Some 5, Some 4, Some 3, Some 2, None]"
  shows "\<exists>m self'. calculate_metrics self = Inr (m, self') \<and>
           total_tickets m = 5 \<and> tickets_resueltos m = 4 \<and> tickets_abiertos m = 1 \<and>
           tasa_resolucion m = 80 \<and> tiempo_promedio_resolucion_horas m = 27.5 \<and>
           satisfaccion_promedio m = 3.5 \<and> sla_24h m = 50"
proof -
  obtain m where m: "calculate_metrics_df [t1, t2, t3, t4, t5] = Inr m"
    by (simp add: calculate_metrics_df_Inr)
  have "total_tickets m = 5 \<and> tickets_resueltos m = 4 \<and> tickets_abiertos m = 1 \<and>
           tasa_resolucion m = 80 \<and> tiempo_promedio_resolucion_horas m = 27.5 \<and>
           satisfaccion_promedio m = 3.5 \<and> sla_24h m = 50"
    using m assms(4-)
    by (auto simp add: calculate_metrics_df_Inr notna_simps mean_def round2_def rint_def Let_def)
  then show ?thesis
    using calculate_metrics_on[OF assms(1,2,3) m] by blast
qed

text \<open>
  The scenario of C1 on concrete rows.
\<close>

theorem scenario_five_tickets_witness:
  "\<exists>m self'. calculate_metrics (analyzer_con cinco_tickets) = Inr (m, self') \<and>
           total_tickets m = 5 \<and> tickets_resueltos m = 4 \<and> tickets_abiertos m = 1 \<and>
           tasa_resolucion m = 80 \<and> tiempo_promedio_resolucion_horas m = 27.5 \<and>
           satisfaccion_promedio m = 3.5 \<and> sla_24h m = 50"
  using scenario_five_tickets
          [of "analyzer_con cinco_tickets"
              "\<lparr>tickets = Some cinco_tickets, metricas_diarias = Some []\<rparr>"
              "ticket_ejemplo ''TICK-0001'' ''Resuelto'' (Some 10) (Some 5)"
              "ticket_ejemplo ''TICK-0002'' ''Cerrado'' (Some 20) (Some 4)"
              "ticket_ejemplo ''TICK-0003'' ''Resuelto'' (Some 30) (Some 3)"
              "ticket_ejemplo ''TICK-0004'' ''Cerrado'' (Some 50) (Some 2)"
              "ticket_ejemplo ''TICK-0005'' ''En Progreso'' None None"]
        fechas_ok_cinco_tickets
  by (simp add: analyzer_con_def cinco_tickets_def ticket_ejemplo_def es_resuelto_def)

text \<open>
  Claim C2. On an empty ticket table \<^verbatim>\<open>calculate_metrics\<close> returns, without a
  division error, the dictionary whose counts, rates and means are all zero and
  whose three grouped mappings are empty.
\<close>

theorem empty_collection:
  assumes "conn self = Some db" and "tickets db = Some []"
  shows "calculate_metrics self = Inr (metrics_cero, self\<lparr>metrics := Some metrics_cero\<rparr>)"
proof -
  have "value_counts [] = Map.empty"
    by (simp add: value_counts_def)
  then have "calculate_metrics_df [] = Inr metrics_cero"
    by (simp add: calculate_metrics_df_Inr metrics_cero_def notna_simps round2_zero)
  moreover have "list_all fechas_ok []"
    by simp
  ultimately show ?thesis
    using assms by (intro calculate_metrics_on)
qed

text \<open>
  C2 on the analyzer whose table exists and is empty.
\<close>

theorem empty_collection_witness:
  "calculate_metrics (analyzer_con []) =
     Inr (metrics_cero, (analyzer_con [])\<lparr>metrics := Some metrics_cero\<rparr>)"
  using empty_collection
          [of "analyzer_con []" "\<lparr>tickets = Some [], metricas_diarias = Some []\<rparr>"]
  by (simp add: analyzer_con_def)

lemma ratio_percent:
  assumes "a \<le> (b::nat)"
  shows "0 \<le> real a / real b * 100 \<and> real a / real b * 100 \<le> 100"
proof -
  have q: "real a / real b \<le> 1"
    using assms by (cases "b = 0") (simp_all add: divide_le_eq_1)
  have "real a / real b * 100 \<le> 1 * 100"
    using q by (rule mult_right_mono) simp
  then show ?thesis by simp
qed

lemma calculate_metrics_df_rates:
  assumes m: "calculate_metrics_df df = Inr m"
  shows "0 \<le> tasa_resolucion m \<and> tasa_resolucion m \<le> 100 \<and>
         0 \<le> sla_24h m \<and> sla_24h m \<le> 100"
proof -
  let ?r = "real (length (filter es_resuelto df)) / real (length df) * 100"
  let ?hs = "notna (map tiempo_resolucion_horas df)"
  let ?s = "real (length (filter (\<lambda>h. h \<le> 24) ?hs)) / real (length ?hs) * 100"
  have r: "0 \<le> ?r \<and> ?r \<le> 100"
    by (rule ratio_percent) simp
  have s: "0 \<le> ?s \<and> ?s \<le> 100"
    by (rule ratio_percent) simp
  have tasa: "0 \<le> tasa_resolucion m \<and> tasa_resolucion m \<le> 100"
  proof (cases "df = []")
    case True
    then show ?thesis using m by (auto simp add: calculate_metrics_df_Inr round2_zero)
  next
    case False
    then have "tasa_resolucion m = round2 ?r"
      using m by (auto simp add: calculate_metrics_df_Inr)
    then show ?thesis using r round2_bounds[of ?r] by simp
  qed
  have sla: "0 \<le> sla_24h m \<and> sla_24h m \<le> 100"
  proof (cases "?hs = []")
    case True
    then show ?thesis using m by (auto simp add: calculate_metrics_df_Inr round2_zero)
  next
    case False
    then have "sla_24h m = round2 ?s"
      using m by (auto simp add: calculate_metrics_df_Inr)
    then show ?thesis using s round2_bounds[of ?s] by simp
  qed
  show ?thesis
    using tasa sla by blast
qed

text \<open>
  Claim C4. For every content of the ticket table, the resolution rate and the
  24-hour SLA rate of the dictionary that \<^verbatim>\<open>calculate_metrics\<close> returns both lie
  between 0 and 100; and the method does return a dictionary whenever the date
  columns hold dates (on a text that is no date \<^verbatim>\<open>pd.to_datetime\<close> raises, and no
  rate is computed).
\<close>

theorem rates_are_percentages:
  assumes "conn self = Some db" and "tickets db = Some df"
  shows "(list_all fechas_ok df \<longrightarrow> (\<exists>m self'. calculate_metrics self = Inr (m, self'))) \<and>
         (\<forall>m self'. calculate_metrics self = Inr (m, self') \<longrightarrow>
            0 \<le> tasa_resolucion m \<and> tasa_resolucion m \<le> 100 \<and>
            0 \<le> sla_24h m \<and> sla_24h m \<le> 100)"
proof (rule conjI)
  show "list_all fechas_ok df \<longrightarrow> (\<exists>m self'. calculate_metrics self = Inr (m, self'))"
  proof
    assume ok: "list_all fechas_ok df"
    obtain m where m: "calculate_metrics_df df = Inr m"
      by (simp add: calculate_metrics_df_Inr)
    show "\<exists>m self'. calculate_metrics self = Inr (m, self')"
      using calculate_metrics_on[OF assms ok m] by blast
  qed
next
  show "\<forall>m self'. calculate_metrics self = Inr (m, self') \<longrightarrow>
          (0 \<le> tasa_resolucion m \<and> tasa_resolucion m \<le> 100 \<and>
             0 \<le> sla_24h m \<and> sla_24h m \<le> 100)"
  proof (intro allI impI)
    fix m self'
    assume "calculate_metrics self = Inr (m, self')"
    then have "calculate_metrics_df df = Inr m"
      using calculate_metrics_returned[OF assms] by blast
    then show "0 \<le> tasa_resolucion m \<and> tasa_resolucion m \<le> 100 \<and>
               0 \<le> sla_24h m \<and> sla_24h m \<le> 100"
      by (rule calculate_metrics_df_rates)
  qed
qed

text \<open>
  C4 on the five tickets of the scenario.
\<close>

theorem rates_are_percentages_witness:
  "list_all fechas_ok cinco_tickets \<and>
   (\<exists>m self'. calculate_metrics (analyzer_con cinco_tickets) = Inr (m, self') \<and>
           0 \<le> tasa_resolucion m \<and> tasa_resolucion m \<le> 100 \<and>
           0 \<le> sla_24h m \<and> sla_24h m \<le> 100)"
proof -
  have c: "conn (analyzer_con cinco_tickets) =
             Some \<lparr>tickets = Some cinco_tickets, metricas_diarias = Some []\<rparr>"
    by (simp add: analyzer_con_def)
  have t: "tickets \<lparr>tickets = Some cinco_tickets, metricas_diarias = Some []\<rparr> =
             Some cinco_tickets"
    by simp
  show ?thesis
    using rates_are_percentages[OF c t] fechas_ok_cinco_tickets by blast
qed

lemma filter_en_progreso:
  "length (filter (\<lambda>t. estado t = ''En Progreso'') df)
     \<le> length (filter (\<lambda>t. estado t \<noteq> ''Resuelto'' \<and> estado t \<noteq> ''Cerrado'') df)"
  by (induction df) auto

lemma calculate_metrics_df_counts:
  assumes m: "calculate_metrics_df df = Inr m"
  shows "total_tickets m = int (length df) \<and>
         total_tickets m = tickets_resueltos m + tickets_abiertos m \<and>
         tickets_resueltos m =
           int (length (filter (\<lambda>t. estado t = ''Resuelto'' \<or> estado t = ''Cerrado'') df)) \<and>
         tickets_abiertos m =
           int (length (filter (\<lambda>t. estado t \<noteq> ''Resuelto'' \<and> estado t \<noteq> ''Cerrado'') df)) \<and>
         int (length (filter (\<lambda>t. estado t = ''En Progreso'') df)) \<le> tickets_abiertos m"
proof -
  let ?res = "\<lambda>t. estado t = ''Resuelto'' \<or> estado t = ''Cerrado''"
  let ?ab = "\<lambda>t. estado t \<noteq> ''Resuelto'' \<and> estado t \<noteq> ''Cerrado''"
  have res: "filter es_resuelto df = filter ?res df"
    by (simp add: es_resuelto_def[abs_def])
  have "length df = length (filter ?res df) + length (filter (\<lambda>t. \<not> ?res t) df)"
    by (rule sum_length_filter_compl[symmetric])
  then have split: "int (length df) - int (length (filter ?res df)) = int (length (filter ?ab df))"
    by simp
  have "total_tickets m = int (length df) \<and>
        total_tickets m = tickets_resueltos m + tickets_abiertos m \<and>
        tickets_resueltos m = int (length (filter ?res df)) \<and>
        tickets_abiertos m = int (length (filter ?ab df))"
    using m split by (auto simp add: calculate_metrics_df_Inr res)
  then show ?thesis
    using filter_en_progreso[of df] by auto
qed

text \<open>
  Claim C10. For every content of the ticket table the dictionary that
  \<^verbatim>\<open>calculate_metrics\<close> returns has total = resolved + open; resolved counts exactly
  the tickets whose state is \<^verbatim>\<open>Resuelto\<close> or \<^verbatim>\<open>Cerrado\<close>, open counts all the
  others, so that every ticket in state \<^verbatim>\<open>En Progreso\<close> is counted as open; and the
  method does return a dictionary whenever the date columns hold dates.
\<close>

theorem total_is_resolved_plus_open:
  assumes "conn self = Some db" and "tickets db = Some df"
  shows "(list_all fechas_ok df \<longrightarrow> (\<exists>m self'. calculate_metrics self = Inr (m, self'))) \<and>
         (\<forall>m self'. calculate_metrics self = Inr (m, self') \<longrightarrow>
            total_tickets m = int (length df) \<and>
            total_tickets m = tickets_resueltos m + tickets_abiertos m \<and>
            tickets_resueltos m =
              int (length (filter (\<lambda>t. estado t = ''Resuelto'' \<or> estado t = ''Cerrado'') df)) \<and>
            tickets_abiertos m =
              int (length (filter (\<lambda>t. estado t \<noteq> ''Resuelto'' \<and> estado t \<noteq> ''Cerrado'') df)) \<and>
            int (length (filter (\<lambda>t. estado t = ''En Progreso'') df)) \<le> tickets_abiertos m)"
proof (rule conjI)
  show "list_all fechas_ok df \<longrightarrow> (\<exists>m self'. calculate_metrics self = Inr (m, self'))"
  proof
    assume ok: "list_all fechas_ok df"
    obtain m where m: "calculate_metrics_df df = Inr m"
      by (simp add: calculate_metrics_df_Inr)
    show "\<exists>m self'. calculate_metrics self = Inr (m, self')"
      using calculate_metrics_on[OF assms ok m] by blast
  qed
next
  show "\<forall>m self'. calculate_metrics self = Inr (m, self') \<longrightarrow>
          (total_tickets m = int (length df) \<and>
            total_tickets m = tickets_resueltos m + tickets_abiertos m \<and>
            tickets_resueltos m =
              int (length (filter (\<lambda>t. estado t = ''Resuelto'' \<or> estado t = ''Cerrado'') df)) \<and>
            tickets_abiertos m =
              int (length (filter (\<lambda>t. estado t \<noteq> ''Resuelto'' \<and> estado t \<noteq> ''Cerrado'') df)) \<and>
            int (length (filter (\<lambda>t. estado t = ''En Progreso'') df)) \<le> tickets_abiertos m)"
  proof (intro allI impI)
    fix m self'
    assume "calculate_metrics self = Inr (m, self')"
    then have "calculate_metrics_df df = Inr m"
      using calculate_metrics_returned[OF assms] by blast
    then show "total_tickets m = int (length df) \<and>
              total_tickets m = tickets_resueltos m + tickets_abiertos m \<and>
              tickets_resueltos m =
                int (length (filter (\<lambda>t. estado t = ''Resuelto'' \<or> estado t = ''Cerrado'') df)) \<and>
              tickets_abiertos m =
                int (length (filter (\<lambda>t. estado t \<noteq> ''Resuelto'' \<and> estado t \<noteq> ''Cerrado'') df)) \<and>
              int (length (filter (\<lambda>t. estado t = ''En Progreso'') df)) \<le> tickets_abiertos m"
      by (rule calculate_metrics_df_counts)
  qed
qed

text \<open>
  C10 on the five tickets of the scenario.
\<close>

theorem total_is_resolved_plus_open_witness:
  "list_all fechas_ok cinco_tickets \<and>
   (\<exists>m self'. calculate_metrics (analyzer_con cinco_tickets) = Inr (m, self') \<and>
           total_tickets m = 5 \<and>
           total_tickets m = tickets_resueltos m + tickets_abiertos m \<and>
           tickets_resueltos m = 4 \<and> tickets_abiertos m = 1 \<and> 1 \<le> tickets_abiertos m)"
proof -
  have c: "conn (analyzer_con cinco_tickets) =
             Some \<lparr>tickets = Some cinco_tickets, metricas_diarias = Some []\<rparr>"
    by (simp add: analyzer_con_def)
  have t: "tickets \<lparr>tickets = Some cinco_tickets, metricas_diarias = Some []\<rparr> =
             Some cinco_tickets"
    by simp
  have n: "int (length cinco_tickets) = 5"
          "int (length (filter (\<lambda>t. estado t = ''Resuelto'' \<or> estado t = ''Cerrado'') cinco_tickets)) = 4"
          "int (length (filter (\<lambda>t. estado t \<noteq> ''Resuelto'' \<and> estado t \<noteq> ''Cerrado'') cinco_tickets)) = 1"
          "int (length (filter (\<lambda>t. estado t = ''En Progreso'') cinco_tickets)) = 1"
    by (simp_all add: cinco_tickets_def ticket_ejemplo_def)
  from total_is_resolved_plus_open[OF c t] fechas_ok_cinco_tickets
  obtain m self' where run: "calculate_metrics (analyzer_con cinco_tickets) = Inr (m, self')"
    by blast
  with total_is_resolved_plus_open[OF c t]
  have "total_tickets m = int (length cinco_tickets) \<and>
        total_tickets m = tickets_resueltos m + tickets_abiertos m \<and>
        tickets_resueltos m =
          int (length (filter (\<lambda>t. estado t = ''Resuelto'' \<or> estado t = ''Cerrado'') cinco_tickets)) \<and>
        tickets_abiertos m =
          int (length (filter (\<lambda>t. estado t \<noteq> ''Resuelto'' \<and> estado t \<noteq> ''Cerrado'') cinco_tickets)) \<and>
        int (length (filter (\<lambda>t. estado t = ''En Progreso'') cinco_tickets)) \<le> tickets_abiertos m"
    by blast
  then show ?thesis
    using run fechas_ok_cinco_tickets unfolding n by auto
qed

section \<open>Effects of the metrics computation\<close>

text \<open>
  Claim C9 as stated does not hold of \<^verbatim>\<open>calculate_metrics\<close>: the method takes no
  ticket collection, it reads the table through the connection (and raises without
  one), and it assigns the dictionary to \<^verbatim>\<open>self.metrics\<close>, so the analyzer after the
  call differs from the analyzer before it.
\<close>

theorem calculate_metrics_not_pure:
  "calculate_metrics (analyzer_con []) =
     Inr (metrics_cero, (analyzer_con [])\<lparr>metrics := Some metrics_cero\<rparr>) \<and>
   metrics ((analyzer_con [])\<lparr>metrics := Some metrics_cero\<rparr>) \<noteq> metrics (analyzer_con []) \<and>
   calculate_metrics ((analyzer_con [])\<lparr>conn := None\<rparr>) = Inl AttributeError"
proof -
  have "value_counts [] = Map.empty"
    by (simp add: value_counts_def)
  then have "calculate_metrics_df [] = Inr metrics_cero"
    by (simp add: calculate_metrics_df_Inr metrics_cero_def notna_simps round2_zero)
  then show ?thesis
    by (simp add: calculate_metrics_def analyzer_con_def to_datetime_def notna_simps)
qed

text \<open>
  Claim C9, amended. \<^verbatim>\<open>calculate_metrics\<close> reads the rows of the ticket table through
  the connection; its outcome, the dictionary returned or the error raised, is
  determined by the rows alone: two analyzers whose tables hold equal rows obtain
  the same outcome, whatever else differs between them. When it returns, its only
  effect on the analyzer is to store the returned dictionary in \<^verbatim>\<open>self.metrics\<close>,
  the database being left as it was; and it returns whenever the date columns hold
  dates.
\<close>

theorem calculate_metrics_depends_on_rows_only:
  assumes "conn self = Some db" and "tickets db = Some df"
    and "conn other = Some db'" and "tickets db' = Some df"
  shows "map_sum id fst (calculate_metrics self) = map_sum id fst (calculate_metrics other) \<and>
         (\<forall>m self'. calculate_metrics self = Inr (m, self') \<longrightarrow>
            self' = self\<lparr>metrics := Some m\<rparr>) \<and>
         (list_all fechas_ok df \<longrightarrow> (\<exists>m self'. calculate_metrics self = Inr (m, self')))"
proof (intro conjI)
  obtain m where m: "calculate_metrics_df df = Inr m"
    by (simp add: calculate_metrics_df_Inr)
  show "map_sum id fst (calculate_metrics self) = map_sum id fst (calculate_metrics other)"
  proof (cases "list_all fechas_ok df")
    case True
    then show ?thesis
      using calculate_metrics_on[OF assms(1,2) True m] calculate_metrics_on[OF assms(3,4) True m]
      by simp
  next
    case False
    then show ?thesis
      using calculate_metrics_raises[OF assms(1,2)] calculate_metrics_raises[OF assms(3,4)]
      by simp
  qed
  show "\<forall>m self'. calculate_metrics self = Inr (m, self') \<longrightarrow> self' = self\<lparr>metrics := Some m\<rparr>"
    using calculate_metrics_returned[OF assms(1,2)] by blast
  show "list_all fechas_ok df \<longrightarrow> (\<exists>m self'. calculate_metrics self = Inr (m, self'))"
    using calculate_metrics_on[OF assms(1,2) _ m] by blast
qed

text \<open>The amended C9 on two analyzers that differ in path and in cached metrics.\<close>

theorem calculate_metrics_depends_on_rows_only_witness:
  "list_all fechas_ok cinco_tickets \<and>
   (\<exists>m. calculate_metrics (analyzer_con cinco_tickets) =
           Inr (m, (analyzer_con cinco_tickets)\<lparr>metrics := Some m\<rparr>) \<and>
        map_sum id fst
          (calculate_metrics
             ((analyzer_con cinco_tickets)\<lparr>db_path := ''otra.db'', metrics := Some metrics_cero\<rparr>)) =
        Inr m)"
proof -
  let ?a = "analyzer_con cinco_tickets"
  let ?b = "(analyzer_con cinco_tickets)\<lparr>db_path := ''otra.db'', metrics := Some metrics_cero\<rparr>"
  let ?db = "\<lparr>tickets = Some cinco_tickets, metricas_diarias = Some []\<rparr>"
  have ca: "conn ?a = Some ?db" and cb: "conn ?b = Some ?db"
    by (simp_all add: analyzer_con_def)
  have t: "tickets ?db = Some cinco_tickets"
    by simp
  note th = calculate_metrics_depends_on_rows_only[OF ca t cb t]
  from th fechas_ok_cinco_tickets obtain m self' where run: "calculate_metrics ?a = Inr (m, self')"
    by blast
  then have "self' = ?a\<lparr>metrics := Some m\<rparr>"
    using th by blast
  moreover have "map_sum id fst (calculate_metrics ?b) = Inr m"
    using th run by simp
  ultimately show ?thesis
    using run fechas_ok_cinco_tickets by blast
qed

section \<open>Properties of the ticket store\<close>

lemma create_table_if_not_exists_idem:
  "create_table_if_not_exists (create_table_if_not_exists tbl) = create_table_if_not_exists tbl"
  by (simp add: create_table_if_not_exists_def split: option.splits)

lemma create_table_if_not_exists_Some: "create_table_if_not_exists tbl \<noteq> None"
  by (simp add: create_table_if_not_exists_def split: option.splits)

text \<open>
  Claim C6. On a connected analyzer, \<^verbatim>\<open>create_tables\<close> called twice raises no error
  and the second call changes nothing: the analyzer, hence the schema with the ticket
  table and the rollup table, is the one left by the first call.
\<close>

theorem create_tables_idempotent:
  assumes "conn self = Some db"
  shows "\<exists>s1 db1. create_tables self = Inr s1 \<and> create_tables s1 = Inr s1 \<and>
           conn s1 = Some db1 \<and> schema db1 = [''tickets'', ''metricas_diarias'']"
  using assms
  by (simp add: create_tables_def schema_def create_table_if_not_exists_idem
        create_table_if_not_exists_Some)

text \<open>
  C6 on a connection to a database without tables.
\<close>

theorem create_tables_idempotent_witness:
  "\<exists>s1 db1. create_tables \<lparr>db_path = ''support_tickets.db'',
                              conn = Some \<lparr>tickets = None, metricas_diarias = None\<rparr>,
                              metrics = None\<rparr> = Inr s1 \<and>
           create_tables s1 = Inr s1 \<and>
           conn s1 = Some db1 \<and> schema db1 = [''tickets'', ''metricas_diarias'']"
  using create_tables_idempotent
          [of "\<lparr>db_path = ''support_tickets.db'',
                conn = Some \<lparr>tickets = None, metricas_diarias = None\<rparr>,
                metrics = None\<rparr>" "\<lparr>tickets = None, metricas_diarias = None\<rparr>"]
  by simp

lemma insert_or_ignore_filter:
  "tid \<in> set (map ticket_id rows) \<Longrightarrow>
   filter (\<lambda>x. ticket_id x = tid) (insert_or_ignore t rows) = filter (\<lambda>x. ticket_id x = tid) rows"
  by (auto simp add: insert_or_ignore_def)

lemma insert_or_ignore_keeps_ids:
  "tid \<in> set (map ticket_id rows) \<Longrightarrow> tid \<in> set (map ticket_id (insert_or_ignore t rows))"
  by (auto simp add: insert_or_ignore_def)

lemma execute_inserts_keeps:
  "tickets db = Some rows \<Longrightarrow> tid \<in> set (map ticket_id rows) \<Longrightarrow>
   \<exists>db' rows'. execute_inserts ts db = Inr db' \<and> tickets db' = Some rows' \<and>
     metricas_diarias db' = metricas_diarias db \<and>
     filter (\<lambda>x. ticket_id x = tid) rows' = filter (\<lambda>x. ticket_id x = tid) rows"
proof (induction ts arbitrary: db rows)
  case Nil
  then show ?case by simp
next
  case (Cons t ts)
  let ?db = "db\<lparr>tickets := Some (insert_or_ignore t rows)\<rparr>"
  have "tickets ?db = Some (insert_or_ignore t rows)" by simp
  from Cons.IH[OF this insert_or_ignore_keeps_ids[OF Cons.prems(2)]]
  show ?case
    using Cons.prems by (simp add: insert_or_ignore_filter)
qed

text \<open>
  Claim C5. Inserting a ticket whose \<^verbatim>\<open>ticket_id\<close> is already stored raises no error
  and leaves the rows of the database as they were; and in any batch of inserts that
  contains such a ticket, the rows stored under that \<^verbatim>\<open>ticket_id\<close> are afterwards
  the ones stored before.
\<close>

theorem duplicate_ticket_id_ignored:
  assumes "tickets db = Some rows" and "r \<in> set rows" and "ticket_id t = ticket_id r"
  shows "execute_inserts [t] db = Inr db \<and>
         (\<exists>db' rows'. execute_inserts (ts1 @ t # ts2) db = Inr db' \<and> tickets db' = Some rows' \<and>
            filter (\<lambda>x. ticket_id x = ticket_id r) rows' =
            filter (\<lambda>x. ticket_id x = ticket_id r) rows)"
proof -
  have tid: "ticket_id r \<in> set (map ticket_id rows)"
    using assms(2) by simp
  have "insert_or_ignore t rows = rows"
    using tid assms(3) by (simp add: insert_or_ignore_def)
  then have "execute_inserts [t] db = Inr db"
    using assms(1) by simp
  then show ?thesis
    using execute_inserts_keeps[OF assms(1) tid, of "ts1 @ t # ts2"] by blast
qed

text \<open>
  C5 on the five tickets of the scenario: a ticket that reuses the identifier
  \<^verbatim>\<open>TICK-0002\<close> with other contents is inserted alone and inside a batch.
\<close>

theorem duplicate_ticket_id_ignored_witness:
  "execute_inserts [ticket_ejemplo ''TICK-0002'' ''Abierto'' None None]
     \<lparr>tickets = Some cinco_tickets, metricas_diarias = Some []\<rparr> =
     Inr \<lparr>tickets = Some cinco_tickets, metricas_diarias = Some []\<rparr> \<and>
   (\<exists>db' rows'.
      execute_inserts
        ([ticket_ejemplo ''TICK-0006'' ''Abierto'' None None] @
         ticket_ejemplo ''TICK-0002'' ''Abierto'' None None #
         [ticket_ejemplo ''TICK-0007'' ''Cerrado'' (Some 3) (Some 5)])
        \<lparr>tickets = Some cinco_tickets, metricas_diarias = Some []\<rparr> = Inr db' \<and>
      tickets db' = Some rows' \<and>
      filter (\<lambda>x. ticket_id x = ''TICK-0002'') rows' =
      filter (\<lambda>x. ticket_id x = ''TICK-0002'') cinco_tickets)"
  using duplicate_ticket_id_ignored
          [of "\<lparr>tickets = Some cinco_tickets, metricas_diarias = Some []\<rparr>" cinco_tickets
              "ticket_ejemplo ''TICK-0002'' ''Cerrado'' (Some 20) (Some 4)"
              "ticket_ejemplo ''TICK-0002'' ''Abierto'' None None"
              "[ticket_ejemplo ''TICK-0006'' ''Abierto'' None None]"
              "[ticket_ejemplo ''TICK-0007'' ''Cerrado'' (Some 3) (Some 5)]"]
  by (simp add: cinco_tickets_def ticket_ejemplo_def)

section \<open>Properties of the sample data generator\<close>

lemma choice_p_resuelto:
  "u < 1 \<Longrightarrow> choice_p [''Resuelto'', ''Cerrado''] [0.7, 0.3] u = ''Resuelto'' \<or>
              choice_p [''Resuelto'', ''Cerrado''] [0.7, 0.3] u = ''Cerrado''"
  by (simp add: choice_p_def Let_def)

lemma choice_p_abierto:
  "u < 1 \<Longrightarrow> choice_p [''Abierto'', ''En Progreso''] [0.3, 0.7] u = ''Abierto'' \<or>
              choice_p [''Abierto'', ''En Progreso''] [0.3, 0.7] u = ''En Progreso''"
  by (simp add: choice_p_def Let_def)

lemma sample_ticket_invariant:
  assumes "sorteo_ok s"
  shows "(fecha_resolucion (sample_ticket b i s) \<noteq> None) =
           (tiempo_resolucion_horas (sample_ticket b i s) \<noteq> None) \<and>
         (tiempo_resolucion_horas (sample_ticket b i s) \<noteq> None) =
           (satisfaccion_cliente (sample_ticket b i s) \<noteq> None) \<and>
         (fecha_resolucion (sample_ticket b i s) \<noteq> None) =
           (estado (sample_ticket b i s) = ''Resuelto'' \<or> estado (sample_ticket b i s) = ''Cerrado'')"
proof -
  have u: "r_estado s < 1"
    using assms by (simp add: sorteo_ok_def)
  show ?thesis
  proof (cases "r_resuelto s > 0.2")
    case True
    then show ?thesis
      using choice_p_resuelto[OF u] by (simp add: sample_ticket_def Let_def)
  next
    case False
    have "choice_p [''Abierto'', ''En Progreso''] [0.3, 0.7] (r_estado s) \<noteq> ''Resuelto'' \<and>
          choice_p [''Abierto'', ''En Progreso''] [0.3, 0.7] (r_estado s) \<noteq> ''Cerrado''"
      using choice_p_abierto[OF u] by auto
    then show ?thesis
      using False by (simp add: sample_ticket_def Let_def)
  qed
qed

lemma in_sample_tickets:
  "t \<in> set (sample_tickets b ds) \<Longrightarrow> \<exists>i s. s \<in> set ds \<and> t = sample_ticket b i s"
proof -
  assume "t \<in> set (sample_tickets b ds)"
  then obtain i where "i < length ds" and "t = sample_ticket b i (ds ! i)"
    by (auto simp add: sample_tickets_def in_set_enumerate_eq)
  then show ?thesis
    using nth_mem by blast
qed

text \<open>
  Claim C3. Whatever the clock and the draws (within the ranges of the generators),
  the generator produces one ticket per draw, and in each of them the resolution
  date, the resolution time and the satisfaction are present together or absent
  together, and they are present exactly when the state is \<^verbatim>\<open>Resuelto\<close> or
  \<^verbatim>\<open>Cerrado\<close>.
\<close>

theorem generated_tickets_invariant:
  assumes "list_all sorteo_ok ds"
  shows "length (sample_tickets b ds) = length ds \<and>
         (\<forall>t \<in> set (sample_tickets b ds).
            (fecha_resolucion t \<noteq> None) = (tiempo_resolucion_horas t \<noteq> None) \<and>
            (tiempo_resolucion_horas t \<noteq> None) = (satisfaccion_cliente t \<noteq> None) \<and>
            (fecha_resolucion t \<noteq> None) = (estado t = ''Resuelto'' \<or> estado t = ''Cerrado''))"
proof
  show "length (sample_tickets b ds) = length ds"
    by (simp add: sample_tickets_def)
next
  show "\<forall>t \<in> set (sample_tickets b ds).
            (fecha_resolucion t \<noteq> None) = (tiempo_resolucion_horas t \<noteq> None) \<and>
            (tiempo_resolucion_horas t \<noteq> None) = (satisfaccion_cliente t \<noteq> None) \<and>
            (fecha_resolucion t \<noteq> None) = (estado t = ''Resuelto'' \<or> estado t = ''Cerrado'')"
  proof
    fix t assume "t \<in> set (sample_tickets b ds)"
    then obtain i s where s: "s \<in> set ds" and t: "t = sample_ticket b i s"
      using in_sample_tickets by blast
    have "sorteo_ok s"
      using assms s by (simp add: list_all_iff)
    then show "(fecha_resolucion t \<noteq> None) = (tiempo_resolucion_horas t \<noteq> None) \<and>
            (tiempo_resolucion_horas t \<noteq> None) = (satisfaccion_cliente t \<noteq> None) \<and>
            (fecha_resolucion t \<noteq> None) = (estado t = ''Resuelto'' \<or> estado t = ''Cerrado'')"
      unfolding t by (rule sample_ticket_invariant)
  qed
qed

text \<open>
  C3 on two draws, the first for a resolved ticket and the second for an open one.
\<close>

theorem generated_tickets_invariant_witness:
  "list_all sorteo_ok [sorteo_resuelto, sorteo_abierto] \<and>
   length (sample_tickets 63849625920000000 [sorteo_resuelto, sorteo_abierto]) =
     length [sorteo_resuelto, sorteo_abierto] \<and>
   list_all
     (\<lambda>t. (fecha_resolucion t \<noteq> None) = (tiempo_resolucion_horas t \<noteq> None) \<and>
          (tiempo_resolucion_horas t \<noteq> None) = (satisfaccion_cliente t \<noteq> None) \<and>
          (fecha_resolucion t \<noteq> None) = (estado t = ''Resuelto'' \<or> estado t = ''Cerrado''))
     (sample_tickets 63849625920000000 [sorteo_resuelto, sorteo_abierto])"
proof -
  have ok: "list_all sorteo_ok [sorteo_resuelto, sorteo_abierto]"
    by (simp add: sorteo_ok_def sorteo_resuelto_def sorteo_abierto_def)
  show ?thesis
    unfolding list_all_iff[of _ "sample_tickets 63849625920000000 [sorteo_resuelto, sorteo_abierto]"]
    using ok generated_tickets_invariant[OF ok, of "63849625920000000"] by blast
qed

section \<open>Order of the week keys\<close>

text \<open>
  Zero-padded decimal texts of equal width are ordered like the numbers they write,
  so the week keys are ordered by year and then by week number.
\<close>

lemma replicate_small:
  "replicate 2 c = [c, c]" "replicate 3 c = [c, c, c]"
  by (simp_all add: numeral_eq_Suc)

lemma of_char_digito: "k < 10 \<Longrightarrow> of_char (digito k) = (48::nat) + k"
proof -
  assume "k < 10"
  then have "k \<in> {0, 1, 2, 3, 4, 5, 6, 7, 8, 9}"
    by auto
  then show ?thesis
    by (auto simp add: digito_def)
qed

lemma digito_less: "a < 10 \<Longrightarrow> b < 10 \<Longrightarrow> (digito a < digito b) = (a < b)"
  by (simp add: less_char_def of_char_digito)

lemma digito_eq: "a < 10 \<Longrightarrow> b < 10 \<Longrightarrow> (digito a = digito b) = (a = b)"
  by (metis of_char_digito add_left_cancel)

lemma decimal_lt10: "n < 10 \<Longrightarrow> decimal n = [digito n]"
  by (simp add: digito_def replicate_small)

lemma decimal_ge10: "10 \<le> n \<Longrightarrow> decimal n = decimal (n div 10) @ [digito (n mod 10)]"
  by (subst decimal.simps) (simp add: digito_def replicate_small)

lemma zfill2: "n < 100 \<Longrightarrow> zfill 2 (decimal n) = [digito (n div 10), digito (n mod 10)]"
proof (cases "n < 10")
  case True
  then show ?thesis
    by (simp add: decimal_lt10 zfill_def digito_def del: decimal.simps)
next
  case False
  assume "n < 100"
  then have "n div 10 < 10" by simp
  then show ?thesis
    using False by (simp add: decimal_ge10 decimal_lt10 zfill_def del: decimal.simps)
qed

lemma zfill4:
  assumes "n < 10000"
  shows "zfill 4 (decimal n) =
           [digito (n div 1000), digito (n div 100 mod 10), digito (n div 10 mod 10), digito (n mod 10)]"
proof -
  consider "n < 10" | "10 \<le> n" "n < 100" | "100 \<le> n" "n < 1000" | "1000 \<le> n"
    by linarith
  then show ?thesis
  proof cases
    case 1
    then show ?thesis
      by (simp add: decimal_lt10 zfill_def del: decimal.simps) (simp add: digito_def replicate_small)
  next
    case 2
    then have "n div 10 < 10" "n div 100 = 0" "n div 1000 = 0" by simp_all
    then show ?thesis
      using 2 by (simp add: decimal_ge10 decimal_lt10 zfill_def del: decimal.simps) (simp add: digito_def replicate_small)
  next
    case 3
    then have a: "10 \<le> n" "10 \<le> n div 10" "n div 10 div 10 < 10" "n div 1000 = 0" by simp_all
    have "n div 10 div 10 = n div 100" by (simp add: div_mult2_eq[symmetric])
    then show ?thesis
      using 3 a by (simp add: decimal_ge10 decimal_lt10 zfill_def del: decimal.simps) (simp add: digito_def replicate_small)
  next
    case 4
    then have a: "10 \<le> n" "10 \<le> n div 10" "10 \<le> n div 10 div 10" "n div 10 div 10 div 10 < 10"
      using assms by simp_all
    have b: "n div 10 div 10 = n div 100" "n div 10 div 10 div 10 = n div 1000"
      by (simp_all add: div_mult2_eq[symmetric])
    show ?thesis
      using a b by (simp add: decimal_ge10 decimal_lt10 zfill_def del: decimal.simps)
  qed
qed

lemma lex10:
  "(n < m) = (n div 10 < m div 10 \<or> n div 10 = m div 10 \<and> n mod 10 < (m::nat) mod 10)"
proof -
  have n: "n = 10 * (n div 10) + n mod 10" and m: "m = 10 * (m div 10) + m mod 10"
    by simp_all
  have "n mod 10 < 10" "m mod 10 < 10" by simp_all
  then show ?thesis
    using n m by linarith
qed

lemma eq10: "(n = m) = (n div 10 = m div 10 \<and> n mod 10 = (m::nat) mod 10)"
  by (metis mult_div_mod_eq)

lemma decimal_nonempty: "decimal n \<noteq> []"
  by (subst decimal.simps) simp

lemma zfill_step:
  assumes "0 < k"
  shows "zfill (Suc k) (decimal n) = zfill k (decimal (n div 10)) @ [digito (n mod 10)]"
proof (cases "n < 10")
  case True
  have "replicate k CHR ''0'' = replicate (k - 1) CHR ''0'' @ [CHR ''0'']"
    using assms by (cases k) (simp_all add: replicate_append_same)
  then show ?thesis
    using True by (simp add: zfill_def decimal_lt10 del: decimal.simps) (simp add: digito_def)
next
  case False
  then show ?thesis
    by (simp add: zfill_def decimal_ge10 del: decimal.simps)
qed

lemma length_zfill: "0 < k \<Longrightarrow> n < 10 ^ k \<Longrightarrow> length (zfill k (decimal n)) = k"
proof (induction k arbitrary: n)
  case 0
  then show ?case by simp
next
  case (Suc k)
  show ?case
  proof (cases "k = 0")
    case True
    then show ?thesis using Suc.prems by (simp add: zfill_def decimal_lt10 del: decimal.simps)
  next
    case False
    have "n div 10 < 10 ^ k"
      using Suc.prems by (simp add: less_mult_imp_div_less mult.commute)
    then show ?thesis
      using False Suc.IH[of "n div 10"] by (simp add: zfill_step del: decimal.simps)
  qed
qed

lemma append_less_same_length:
  "length xs = length ys \<Longrightarrow>
   (xs @ us < ys @ vs) = (xs < ys \<or> xs = ys \<and> us < (vs :: 'a :: linorder list))"
  by (induction xs ys rule: list_induct2) auto

lemma zfill_less_eq:
  "0 < k \<Longrightarrow> n < 10 ^ k \<Longrightarrow> m < 10 ^ k \<Longrightarrow>
   ((zfill k (decimal n) < zfill k (decimal m)) = (n < m)) \<and>
   ((zfill k (decimal n) = zfill k (decimal m)) = (n = m))"
proof (induction k arbitrary: n m)
  case 0
  then show ?case by simp
next
  case (Suc k)
  show ?case
  proof (cases "k = 0")
    case True
    then show ?thesis
      using Suc.prems
      by (simp add: zfill_def decimal_lt10 digito_less digito_eq del: decimal.simps)
  next
    case False
    have n: "n div 10 < 10 ^ k" and m: "m div 10 < 10 ^ k"
      using Suc.prems by (simp_all add: less_mult_imp_div_less mult.commute)
    have len: "length (zfill k (decimal (n div 10))) = length (zfill k (decimal (m div 10)))"
      using False n m by (simp add: length_zfill del: decimal.simps)
    have ih: "(zfill k (decimal (n div 10)) < zfill k (decimal (m div 10))) = (n div 10 < m div 10)"
             "(zfill k (decimal (n div 10)) = zfill k (decimal (m div 10))) = (n div 10 = m div 10)"
      using Suc.IH[OF _ n m] False by simp_all
    have d: "(digito (n mod 10) < digito (m mod 10)) = (n mod 10 < m mod 10)"
            "(digito (n mod 10) = digito (m mod 10)) = (n mod 10 = m mod 10)"
      by (simp_all add: digito_less digito_eq)
    show ?thesis
      using False lex10[of n m] eq10[of n m]
      by (simp add: zfill_step append_less_same_length[OF len] ih d del: decimal.simps)
  qed
qed

lemma clave_less:
  assumes "y1 < 10000" "y2 < 10000" "w1 < 100" "w2 < 100"
  shows "(zfill 4 (decimal y1) @ ''-'' @ zfill 2 (decimal w1)
            < zfill 4 (decimal y2) @ ''-'' @ zfill 2 (decimal w2))
         = (y1 < y2 \<or> y1 = y2 \<and> w1 < w2)"
proof -
  have len: "length (zfill 4 (decimal y1)) = length (zfill 4 (decimal y2))"
    using assms by (simp add: length_zfill del: decimal.simps)
  have y: "(zfill 4 (decimal y1) < zfill 4 (decimal y2)) = (y1 < y2)"
          "(zfill 4 (decimal y1) = zfill 4 (decimal y2)) = (y1 = y2)"
    using zfill_less_eq[of 4 y1 y2] assms by simp_all
  have w: "(zfill 2 (decimal w1) < zfill 2 (decimal w2)) = (w1 < w2)"
    using zfill_less_eq[of 2 w1 w2] assms by simp
  show ?thesis
    by (simp add: append_less_same_length[OF len] y w del: decimal.simps)
qed

text \<open>
  Within a year the day number of SQLite grows with the calendar, and with it the
  week number, which stays between 0 and 53.
\<close>

lemma month_cases:
  "1 \<le> (m::int) \<Longrightarrow> m \<le> 12 \<Longrightarrow>
   m = 1 \<or> m = 2 \<or> m = 3 \<or> m = 4 \<or> m = 5 \<or> m = 6 \<or> m = 7 \<or> m = 8 \<or> m = 9 \<or> m = 10 \<or> m = 11 \<or> m = 12"
  by arith

lemma julian_day_month:
  assumes "1 \<le> month d" and "month d \<le> 12"
  shows "julian_day d =
           (36525 * ((if month d \<le> 2 then year d - 1 else year d) + 4716) div 100
            + 2 - (if month d \<le> 2 then year d - 1 else year d) div 100
            + (if month d \<le> 2 then year d - 1 else year d) div 100 div 4 - 1524)
           + [0, 428, 459, 122, 153, 183, 214, 244, 275, 306, 336, 367, 397] ! nat (month d)
           + day d"
  using month_cases[OF assms]
  by (elim disjE) (simp_all add: julian_day_def Let_def)

lemma days_in_month_le:
  assumes "1 \<le> m" and "m \<le> 12"
  shows "days_in_month y m \<le> [0, 31, 29, 31, 30, 31, 30, 31, 31, 30, 31, 30, 31] ! nat m"
  using month_cases[OF assms]
  by (elim disjE) (simp_all add: days_in_month_def DAYS_IN_MONTH_def)

lemma century_quarter: "36525 * n div 100 = 365 * n + n div (4::int)"
proof -
  have "36525 * n = 100 * (365 * n) + 25 * n" by simp
  then have "36525 * n div 100 = 365 * n + (25 * n) div 100"
    by (metis div_mult_self2 add.commute zero_neq_numeral)
  moreover have "(25 * n) div 100 = n div 4"
    using zdiv_zmult2_eq[of 25 "25 * n" 4] by simp
  ultimately show ?thesis by simp
qed

lemma X1_eq: "36525 * (y + 4716) div 100 = 365 * y + y div 4 + (1722519::int)"
proof -
  have "(y + 4716) div 4 = (y + 1179 * 4) div 4" by simp
  also have "\<dots> = 1179 + y div 4" by (rule div_mult_self1) simp
  finally show ?thesis by (simp add: century_quarter)
qed

lemma div_100_4: "y div 100 div 4 = y div (400::int)"
  using zdiv_zmult2_eq[of 4 y 100] by simp

lemma pred_div:
  assumes "0 < (k::int)"
  shows "(y - 1) div k = (if y mod k = 0 then y div k - 1 else y div k)"
proof (cases "y mod k = 0")
  case True
  have "y - 1 = k * (y div k - 1) + (k - 1)"
    using True by (simp add: algebra_simps) (metis mult.commute  mult_div_mod_eq add.right_neutral)
  then have "(y - 1) div k = y div k - 1"
    using assms by (intro int_div_pos_eq[where r = "k - 1"]) simp_all
  then show ?thesis using True by simp
next
  case False
  have "0 \<le> y mod k" "y mod k < k" using assms by simp_all
  then have r: "0 \<le> y mod k - 1" "y mod k - 1 < k" using False by simp_all
  have "y - 1 = k * (y div k) + (y mod k - 1)"
    by (simp add: algebra_simps)
  then have "(y - 1) div k = y div k"
    using r by (intro int_div_pos_eq[where r = "y mod k - 1"]) simp_all
  then show ?thesis using False by simp
qed

lemma mod100_mod4: "y mod 100 = 0 \<Longrightarrow> y mod 4 = (0::int)"
  using mod_mod_cancel[of 4 100 y] by simp

lemma mod400_mod100: "y mod 400 = 0 \<Longrightarrow> y mod 100 = (0::int)"
  using mod_mod_cancel[of 100 400 y] by simp

text \<open>The year part of the day number grows by 365 or 366 from one year to the next.\<close>

lemma year_step:
  "36525 * (y - 1 + 4716) div 100 + 2 - (y - 1) div 100 + (y - 1) div 100 div 4 - 1524 + 365
     \<le> 36525 * (y + 4716) div 100 + 2 - y div 100 + y div 100 div 4 - (1524::int) \<and>
   36525 * (y + 4716) div 100 + 2 - y div 100 + y div 100 div 4 - 1524
     \<le> 36525 * (y - 1 + 4716) div 100 + 2 - (y - 1) div 100 + (y - 1) div 100 div 4 - 1524 + 366"
proof -
  have F: "36525 * (Y + 4716) div 100 + 2 - Y div 100 + Y div 100 div 4 - 1524 =
           365 * Y + Y div 4 - Y div 100 + Y div 400 + 1720997" for Y :: int
    by (simp add: X1_eq div_100_4)
  have "y mod 100 = 0 \<longrightarrow> y mod 4 = 0"
    by (rule impI) (rule mod100_mod4)
  moreover have "y mod 400 = 0 \<longrightarrow> y mod 100 = 0"
    by (rule impI) (rule mod400_mod100)
  ultimately show ?thesis
    unfolding F
    by (simp add: pred_div[of 4 y] pred_div[of 100 y] pred_div[of 400 y])
qed

lemma julian_day_same_year_mono:
  assumes v1: "fecha_valida d1" and v2: "fecha_valida d2" and y: "year d1 = year d2"
    and le: "month d1 < month d2 \<or> (month d1 = month d2 \<and> day d1 \<le> day d2)"
  shows "julian_day d1 \<le> julian_day d2"
proof -
  define a where "a = 36525 * (year d2 - 1 + 4716) div 100 + 2 - (year d2 - 1) div 100
                        + (year d2 - 1) div 100 div 4 - 1524"
  define b where "b = 36525 * (year d2 + 4716) div 100 + 2 - year d2 div 100
                        + year d2 div 100 div 4 - 1524"
  have ab: "a + 365 \<le> b"
    using year_step[of "year d2"] by (simp add: a_def b_def)
  have m1: "1 \<le> month d1" "month d1 \<le> 12" and m2: "1 \<le> month d2" "month d2 \<le> 12"
    using v1 v2 by (simp_all add: fecha_valida_def)
  have j1: "julian_day d1 = (if month d1 \<le> 2 then a else b)
              + [0, 428, 459, 122, 153, 183, 214, 244, 275, 306, 336, 367, 397] ! nat (month d1)
              + day d1"
    using julian_day_month[OF m1] y by (simp add: a_def b_def)
  have j2: "julian_day d2 = (if month d2 \<le> 2 then a else b)
              + [0, 428, 459, 122, 153, 183, 214, 244, 275, 306, 336, 367, 397] ! nat (month d2)
              + day d2"
    using julian_day_month[OF m2] by (simp add: a_def b_def)
  have d1: "day d1 \<le> [0, 31, 29, 31, 30, 31, 30, 31, 31, 30, 31, 30, 31] ! nat (month d1)"
    using v1 days_in_month_le[OF m1, of "year d1"] by (simp add: fecha_valida_def)
  have d2: "1 \<le> day d2"
    using v2 by (simp add: fecha_valida_def)
  show ?thesis
    unfolding j1 j2
    using month_cases[OF m1] month_cases[OF m2] le d1 d2 ab
    by (elim disjE) simp_all
qed

lemma strftime_W_mono:
  assumes "year d1 = year d2" and "julian_day d1 \<le> julian_day d2"
  shows "strftime_W d1 \<le> strftime_W d2"
proof -
  have j0: "julian_day (d1\<lparr>month := 1, day := 1\<rparr>) = julian_day (d2\<lparr>month := 1, day := 1\<rparr>)"
    using assms(1) by (simp add: julian_day_def)
  have w: "strftime_W d = (7 * (julian_day d div 7) + 7 - julian_day (d\<lparr>month := 1, day := 1\<rparr>)) div 7" for d
  proof -
    have "julian_day d = 7 * (julian_day d div 7) + julian_day d mod 7"
      by simp
    then have "julian_day d - julian_day (d\<lparr>month := 1, day := 1\<rparr>) + 7 - julian_day d mod 7 =
               7 * (julian_day d div 7) + 7 - julian_day (d\<lparr>month := 1, day := 1\<rparr>)"
      by linarith
    then show ?thesis
      by (simp only: strftime_W_def Let_def)
  qed
  have "julian_day d1 div 7 \<le> julian_day d2 div 7"
    using assms(2) by (simp add: zdiv_mono1)
  then show ?thesis
    unfolding w j0 by (intro zdiv_mono1) simp_all
qed

lemma strftime_W_range:
  assumes v: "fecha_valida d"
  shows "0 \<le> strftime_W d \<and> strftime_W d \<le> 53"
proof -
  let ?d0 = "d\<lparr>month := 1, day := 1\<rparr>"
  let ?d9 = "d\<lparr>month := 12, day := 31\<rparr>"
  have v0: "fecha_valida ?d0" and v9: "fecha_valida ?d9"
    using v by (simp_all add: fecha_valida_def days_in_month_def DAYS_IN_MONTH_def)
  have lo: "julian_day ?d0 \<le> julian_day d"
    using v by (intro julian_day_same_year_mono[OF v0 v]) (auto simp add: fecha_valida_def)
  have "day d \<le> 31"
    using v days_in_month_le[of "month d" "year d"] month_cases[of "month d"]
    by (auto simp add: fecha_valida_def)
  then have hi: "julian_day d \<le> julian_day ?d9"
    using v by (intro julian_day_same_year_mono[OF v v9]) (auto simp add: fecha_valida_def)
  have "julian_day ?d9 - julian_day ?d0 \<le> 365"
    using year_step[of "year d"] by (simp add: julian_day_def Let_def)
  then have n: "0 \<le> julian_day d - julian_day ?d0" "julian_day d - julian_day ?d0 \<le> 365"
    using lo hi by simp_all
  have wd: "0 \<le> julian_day d mod 7" "julian_day d mod 7 < 7"
    by simp_all
  have "0 \<le> (julian_day d - julian_day ?d0 + 7 - julian_day d mod 7) div 7"
    using n wd by (intro pos_imp_zdiv_nonneg_iff[THEN iffD2]) simp_all
  moreover have "(julian_day d - julian_day ?d0 + 7 - julian_day d mod 7) div 7 \<le> 372 div 7"
    using n wd by (intro zdiv_mono1) simp_all
  ultimately show ?thesis
    by (simp add: strftime_W_def Let_def)
qed

lemma strftime_YW_less_anterior:
  assumes v1: "fecha_valida d1" and v2: "fecha_valida d2"
    and less: "strftime_YW d1 < strftime_YW d2"
  shows "anterior d1 d2"
proof -
  have "1 \<le> year d1 \<and> year d1 \<le> 9999" and "1 \<le> year d2 \<and> year d2 \<le> 9999"
    using v1 v2 by (simp_all add: fecha_valida_def)
  then have y: "nat (year d1) < 10000" "nat (year d2) < 10000" "0 \<le> year d1" "0 \<le> year d2"
    by linarith+
  have w: "nat (strftime_W d1) < 100" "nat (strftime_W d2) < 100"
          "0 \<le> strftime_W d1" "0 \<le> strftime_W d2"
    using strftime_W_range[OF v1] strftime_W_range[OF v2] by linarith+
  have "nat (year d1) < nat (year d2) \<or>
        nat (year d1) = nat (year d2) \<and> nat (strftime_W d1) < nat (strftime_W d2)"
    using less clave_less[OF y(1,2) w(1,2)] by (simp only: strftime_YW_def)
  then have cases: "year d1 < year d2 \<or> year d1 = year d2 \<and> strftime_W d1 < strftime_W d2"
    using y w by auto
  show ?thesis
  proof (rule ccontr)
    assume na: "\<not> anterior d1 d2"
    then have yy: "year d1 = year d2" and ww: "strftime_W d1 < strftime_W d2"
      using cases by (auto simp add: anterior_def)
    have "month d2 < month d1 \<or> (month d2 = month d1 \<and> day d2 \<le> day d1)"
      using na yy by (auto simp add: anterior_def)
    then have "julian_day d2 \<le> julian_day d1"
      using yy by (intro julian_day_same_year_mono[OF v2 v1]) simp_all
    then have "strftime_W d2 \<le> strftime_W d1"
      using yy by (intro strftime_W_mono) simp_all
    then show False
      using ww by simp
  qed
qed

section \<open>Properties of the weekly trend\<close>

lemma fecha_valida_sqlite_date_ok: "fecha_valida d \<Longrightarrow> sqlite_date_ok d"
proof -
  assume v: "fecha_valida d"
  then have "1 \<le> month d" "month d \<le> 12"
    by (simp_all add: fecha_valida_def)
  then have "days_in_month (year d) (month d) \<le> 31"
    using days_in_month_le[of "month d" "year d"] month_cases[of "month d"] by auto
  then show ?thesis
    using v by (simp add: fecha_valida_def sqlite_date_ok_def)
qed

text \<open>A ticket dated 2023-13-01 has no week key; one dated 2023-02-30 has the key of 2 March.\<close>

lemma semana_no_date:
  "semana (ticket_creado ''TICK-0001'' \<lparr>year = 2023, month = 13, day = 1\<rparr> ''Abierto'') = None"
  by (simp add: semana_def sqlite_date_ok_def ticket_creado_def)

lemma semana_past_end_of_month:
  "julian_day \<lparr>year = 2023, month = 2, day = 30\<rparr> = julian_day \<lparr>year = 2023, month = 3, day = 2\<rparr>"
  by (simp add: julian_day_def Let_def)

lemma claves_desc: "sorted_wrt (\<lambda>a b. b < a) (rev (sort (remdups (map semana rows))))"
proof -
  have "sorted_wrt (<) (sort (remdups (map semana rows)))"
    by (simp add: strict_sorted_iff)
  then show ?thesis
    by (simp add: sorted_wrt_rev)
qed

lemma claves_set: "set (rev (sort (remdups (map semana rows)))) = semana ` set rows"
  by simp

lemma map_fst_tendencia:
  "map fst (tendencia_semanal rows) = take 8 (rev (sort (remdups (map semana rows))))"
  by (simp add: tendencia_semanal_def take_map comp_def)

lemma take_desc_greatest:
  assumes "sorted_wrt (\<lambda>a b. b < a) ks" and "k \<in> set ks" and "k \<notin> set (take n ks)"
  shows "length (take n ks) = n \<and> (\<forall>s \<in> set (take n ks). k < s)"
proof -
  have "sorted_wrt (\<lambda>a b. b < a) (take n ks @ drop n ks)"
    using assms(1) by simp
  then have gt: "\<forall>x \<in> set (take n ks). \<forall>y \<in> set (drop n ks). y < x"
    unfolding sorted_wrt_append by blast
  have "set ks = set (take n ks) \<union> set (drop n ks)"
    by (metis append_take_drop_id set_append)
  then have kd: "k \<in> set (drop n ks)"
    using assms(2,3) by blast
  then have "drop n ks \<noteq> []"
    by auto
  then have "n < length ks"
    by simp
  then have "length (take n ks) = n"
    by simp
  then show ?thesis
    using gt kd by blast
qed

lemma tendencia_entries:
  "e \<in> set (tendencia_semanal rows) \<Longrightarrow>
   fst e \<in> semana ` set rows \<and>
   fst (snd e) = int (length (filter (\<lambda>t. semana t = fst e) rows)) \<and>
   snd (snd e) = int (length (filter (\<lambda>t. semana t = fst e \<and> es_resuelto t) rows))"
proof -
  assume "e \<in> set (tendencia_semanal rows)"
  then have "e \<in> set (map (\<lambda>s. (s,
                  int (length (filter (\<lambda>t. semana t = s) rows)),
                  int (length (filter (\<lambda>t. semana t = s \<and> es_resuelto t) rows))))
            (rev (sort (remdups (map semana rows)))))"
    unfolding tendencia_semanal_def by (rule in_set_takeD)
  then show ?thesis
    by auto
qed

text \<open>
  Claim C8, amended. Whatever the ticket table holds, the weekly part of the report
  has at most 8 entries, in strictly descending order of the week key
  \<^verbatim>\<open>strftime('%Y-%W', fecha_creacion)\<close> (\<^verbatim>\<open>NULL\<close>, the least key, for a text that
  SQLite does not read as a date); each entry carries a key that occurs, the
  number of tickets created under that key and the number of those in state
  \<^verbatim>\<open>Resuelto\<close> or \<^verbatim>\<open>Cerrado\<close>; and the keys reported are the greatest ones: a
  ticket whose key is not reported sits below all 8 reported keys. These are the
  most recent weeks: when the creation dates are dates of the calendar, every ticket
  of a week that is not reported was created before every ticket of a reported
  week.
\<close>

theorem weekly_trend_by_week_key:
  assumes "conn self = Some db" and "tickets db = Some rows"
  shows "\<exists>rep. reporte_semanal self = Inr rep \<and>
           length rep \<le> 8 \<and>
           sorted_wrt (\<lambda>a b. b < a) (map fst rep) \<and>
           (\<forall>(s, creados, resueltos) \<in> set rep.
              s \<in> semana ` set rows \<and>
              creados = int (length (filter (\<lambda>t. semana t = s) rows)) \<and>
              resueltos =
                int (length (filter (\<lambda>t. semana t = s \<and>
                                         (estado t = ''Resuelto'' \<or> estado t = ''Cerrado'')) rows))) \<and>
           (\<forall>t \<in> set rows.
              semana t \<in> set (map fst rep) \<or>
              (length rep = 8 \<and> (\<forall>s \<in> set (map fst rep). semana t < s))) \<and>
           (list_all (\<lambda>t. fecha_valida (fecha_creacion t)) rows \<longrightarrow>
              (\<forall>t \<in> set rows. \<forall>u \<in> set rows.
                 semana t \<notin> set (map fst rep) \<longrightarrow> semana u \<in> set (map fst rep) \<longrightarrow>
                 anterior (fecha_creacion t) (fecha_creacion u)))"
proof -
  let ?rep = "tendencia_semanal rows"
  let ?ks = "rev (sort (remdups (map semana rows)))"
  have run: "reporte_semanal self = Inr ?rep"
    using assms by (simp add: reporte_semanal_def)
  have len: "length ?rep \<le> 8"
    by (simp add: tendencia_semanal_def)
  have desc: "sorted_wrt (\<lambda>a b. b < a) (map fst ?rep)"
    unfolding map_fst_tendencia using claves_desc by (rule sorted_wrt_take)
  have counts: "\<forall>(s, creados, resueltos) \<in> set ?rep.
              s \<in> semana ` set rows \<and>
              creados = int (length (filter (\<lambda>t. semana t = s) rows)) \<and>
              resueltos =
                int (length (filter (\<lambda>t. semana t = s \<and>
                                         (estado t = ''Resuelto'' \<or> estado t = ''Cerrado'')) rows))"
    using tendencia_entries[of _ rows] by (fastforce simp add: es_resuelto_def)
  have recent: "\<forall>t \<in> set rows.
              semana t \<in> set (map fst ?rep) \<or>
              (length ?rep = 8 \<and> (\<forall>s \<in> set (map fst ?rep). semana t < s))"
  proof
    fix t assume t: "t \<in> set rows"
    show "semana t \<in> set (map fst ?rep) \<or>
              (length ?rep = 8 \<and> (\<forall>s \<in> set (map fst ?rep). semana t < s))"
    proof (cases "semana t \<in> set (map fst ?rep)")
      case True
      then show ?thesis by blast
    next
      case False
      have "semana t \<in> set ?ks"
        using t by simp
      then have "length (take 8 ?ks) = 8 \<and> (\<forall>s \<in> set (take 8 ?ks). semana t < s)"
        using False unfolding map_fst_tendencia
        by (intro take_desc_greatest[OF claves_desc])
      moreover have "length ?rep = length (map fst ?rep)"
        by simp
      ultimately show ?thesis
        by (simp add: map_fst_tendencia)
    qed
  qed
  have dates: "list_all (\<lambda>t. fecha_valida (fecha_creacion t)) rows \<longrightarrow>
              (\<forall>t \<in> set rows. \<forall>u \<in> set rows.
                 semana t \<notin> set (map fst ?rep) \<longrightarrow> semana u \<in> set (map fst ?rep) \<longrightarrow>
                 anterior (fecha_creacion t) (fecha_creacion u))"
  proof (intro impI ballI)
    fix t u
    assume valid: "list_all (\<lambda>t. fecha_valida (fecha_creacion t)) rows"
      and t: "t \<in> set rows" and u: "u \<in> set rows"
      and out: "semana t \<notin> set (map fst ?rep)" and inside: "semana u \<in> set (map fst ?rep)"
    have less: "semana t < semana u"
      using recent t out inside by blast
    have v: "fecha_valida (fecha_creacion t)" "fecha_valida (fecha_creacion u)"
      using valid t u by (simp_all add: list_all_iff)
    then have "semana t = Some (strftime_YW (fecha_creacion t))"
              "semana u = Some (strftime_YW (fecha_creacion u))"
      by (simp_all add: semana_def fecha_valida_sqlite_date_ok)
    then have "strftime_YW (fecha_creacion t) < strftime_YW (fecha_creacion u)"
      using less by simp
    then show "anterior (fecha_creacion t) (fecha_creacion u)"
      using v by (intro strftime_YW_less_anterior)
  qed
  show ?thesis
    using run len desc counts recent dates by blast
qed

text \<open>
  Evaluation of the week keys of nine tickets created on the nine Mondays from
  2024-01-01 to 2024-02-26: the report keeps the weeks 09 down to 02.
\<close>

lemma strftime_YW_digits:
  assumes "0 \<le> year d" "year d < 10000" "0 \<le> strftime_W d" "strftime_W d < 100"
  shows "strftime_YW d =
           [digito (nat (year d) div 1000), digito (nat (year d) div 100 mod 10),
            digito (nat (year d) div 10 mod 10), digito (nat (year d) mod 10), CHR ''-'',
            digito (nat (strftime_W d) div 10), digito (nat (strftime_W d) mod 10)]"
proof -
  have "nat (year d) < 10000" "nat (strftime_W d) < 100"
    using assms by linarith+
  then show ?thesis
    by (simp add: strftime_YW_def zfill4 zfill2 del: decimal.simps)
qed

lemma julian_day_2024_01_01: "julian_day \<lparr>year = 2024, month = 1, day = 1\<rparr> = 2460311"
  by (simp add: julian_day_def Let_def)

lemma strftime_W_2024:
  "strftime_W \<lparr>year = 2024, month = 1, day = 1\<rparr> = 1"
  "strftime_W \<lparr>year = 2024, month = 1, day = 8\<rparr> = 2"
  "strftime_W \<lparr>year = 2024, month = 1, day = 15\<rparr> = 3"
  "strftime_W \<lparr>year = 2024, month = 1, day = 22\<rparr> = 4"
  "strftime_W \<lparr>year = 2024, month = 1, day = 29\<rparr> = 5"
  "strftime_W \<lparr>year = 2024, month = 2, day = 5\<rparr> = 6"
  "strftime_W \<lparr>year = 2024, month = 2, day = 12\<rparr> = 7"
  "strftime_W \<lparr>year = 2024, month = 2, day = 19\<rparr> = 8"
  "strftime_W \<lparr>year = 2024, month = 2, day = 26\<rparr> = 9"
  by (simp_all add: strftime_W_def Let_def julian_day_2024_01_01) (simp_all add: julian_day_def)

lemma strftime_YW_2024:
  "strftime_YW \<lparr>year = 2024, month = 1, day = 1\<rparr> = ''2024-01''"
  "strftime_YW \<lparr>year = 2024, month = 1, day = 8\<rparr> = ''2024-02''"
  "strftime_YW \<lparr>year = 2024, month = 1, day = 15\<rparr> = ''2024-03''"
  "strftime_YW \<lparr>year = 2024, month = 1, day = 22\<rparr> = ''2024-04''"
  "strftime_YW \<lparr>year = 2024, month = 1, day = 29\<rparr> = ''2024-05''"
  "strftime_YW \<lparr>year = 2024, month = 2, day = 5\<rparr> = ''2024-06''"
  "strftime_YW \<lparr>year = 2024, month = 2, day = 12\<rparr> = ''2024-07''"
  "strftime_YW \<lparr>year = 2024, month = 2, day = 19\<rparr> = ''2024-08''"
  "strftime_YW \<lparr>year = 2024, month = 2, day = 26\<rparr> = ''2024-09''"
  by (simp_all add: strftime_YW_digits strftime_W_2024 digito_def)

lemma semana_nueve_semanas:
  "map semana nueve_semanas =
     [Some ''2024-01'', Some ''2024-02'', Some ''2024-03'', Some ''2024-04'', Some ''2024-05'',
      Some ''2024-06'', Some ''2024-07'', Some ''2024-08'', Some ''2024-09'']"
  by (simp add: nueve_semanas_def ticket_creado_def ticket_ejemplo_def semana_def
        sqlite_date_ok_def strftime_YW_2024 del: decimal.simps)

lemma sorted_claves_nueve:
  "sorted [Some ''2024-01'', Some ''2024-02'', Some ''2024-03'', Some ''2024-04'',
           Some ''2024-05'', Some ''2024-06'', Some ''2024-07'', Some ''2024-08'',
           Some ''2024-09'']"
  by (simp add: less_eq_char_def less_char_def)

lemma claves_nueve_semanas:
  "map fst (tendencia_semanal nueve_semanas) =
     [Some ''2024-09'', Some ''2024-08'', Some ''2024-07'', Some ''2024-06'', Some ''2024-05'',
      Some ''2024-04'', Some ''2024-03'', Some ''2024-02'']"
proof -
  have "remdups (map semana nueve_semanas) = map semana nueve_semanas"
    unfolding semana_nueve_semanas by simp
  moreover have "sort (map semana nueve_semanas) = map semana nueve_semanas"
    unfolding semana_nueve_semanas using sorted_claves_nueve by (rule sorted_sort_id)
  ultimately show ?thesis
    unfolding map_fst_tendencia by (simp add: semana_nueve_semanas)
qed

lemma fecha_valida_nueve_semanas:
  "list_all (\<lambda>t. fecha_valida (fecha_creacion t)) nueve_semanas"
  by (simp add: nueve_semanas_def ticket_creado_def ticket_ejemplo_def fecha_valida_def
        days_in_month_def DAYS_IN_MONTH_def is_leap_def)

text \<open>
  The amended C8 on these nine tickets: the limit of 8 entries is reached, and the
  week of the first ticket, the oldest, is the one left out.
\<close>

theorem weekly_trend_by_week_key_witness:
  "list_all (\<lambda>t. fecha_valida (fecha_creacion t)) nueve_semanas \<and>
   length (map fst (tendencia_semanal nueve_semanas)) = 8 \<and>
   Some ''2024-01'' \<in> set (map semana nueve_semanas) \<and>
   Some ''2024-01'' \<notin> set (map fst (tendencia_semanal nueve_semanas)) \<and>
   (\<exists>rep. reporte_semanal (analyzer_con nueve_semanas) = Inr rep \<and>
           length rep \<le> 8 \<and>
           sorted_wrt (\<lambda>a b. b < a) (map fst rep) \<and>
           (\<forall>(s, creados, resueltos) \<in> set rep.
              s \<in> semana ` set nueve_semanas \<and>
              creados = int (length (filter (\<lambda>t. semana t = s) nueve_semanas)) \<and>
              resueltos =
                int (length (filter (\<lambda>t. semana t = s \<and>
                                         (estado t = ''Resuelto'' \<or> estado t = ''Cerrado''))
                               nueve_semanas))) \<and>
           (\<forall>t \<in> set nueve_semanas.
              semana t \<in> set (map fst rep) \<or>
              (length rep = 8 \<and> (\<forall>s \<in> set (map fst rep). semana t < s))) \<and>
           (list_all (\<lambda>t. fecha_valida (fecha_creacion t)) nueve_semanas \<longrightarrow>
              (\<forall>t \<in> set nueve_semanas. \<forall>u \<in> set nueve_semanas.
                 semana t \<notin> set (map fst rep) \<longrightarrow> semana u \<in> set (map fst rep) \<longrightarrow>
                 anterior (fecha_creacion t) (fecha_creacion u))))"
proof (intro conjI)
  show "list_all (\<lambda>t. fecha_valida (fecha_creacion t)) nueve_semanas"
    by (rule fecha_valida_nueve_semanas)
  show "length (map fst (tendencia_semanal nueve_semanas)) = 8"
    unfolding claves_nueve_semanas by simp
  show "Some ''2024-01'' \<in> set (map semana nueve_semanas)"
    unfolding semana_nueve_semanas by simp
  show "Some ''2024-01'' \<notin> set (map fst (tendencia_semanal nueve_semanas))"
    unfolding claves_nueve_semanas by simp
  have c: "conn (analyzer_con nueve_semanas) =
             Some \<lparr>tickets = Some nueve_semanas, metricas_diarias = Some []\<rparr>"
    by (simp add: analyzer_con_def)
  have t: "tickets \<lparr>tickets = Some nueve_semanas, metricas_diarias = Some []\<rparr> =
             Some nueve_semanas"
    by simp
  show "\<exists>rep. reporte_semanal (analyzer_con nueve_semanas) = Inr rep \<and>
           length rep \<le> 8 \<and>
           sorted_wrt (\<lambda>a b. b < a) (map fst rep) \<and>
           (\<forall>(s, creados, resueltos) \<in> set rep.
              s \<in> semana ` set nueve_semanas \<and>
              creados = int (length (filter (\<lambda>t. semana t = s) nueve_semanas)) \<and>
              resueltos =
                int (length (filter (\<lambda>t. semana t = s \<and>
                                         (estado t = ''Resuelto'' \<or> estado t = ''Cerrado''))
                               nueve_semanas))) \<and>
           (\<forall>t \<in> set nueve_semanas.
              semana t \<in> set (map fst rep) \<or>
              (length rep = 8 \<and> (\<forall>s \<in> set (map fst rep). semana t < s))) \<and>
           (list_all (\<lambda>t. fecha_valida (fecha_creacion t)) nueve_semanas \<longrightarrow>
              (\<forall>t \<in> set nueve_semanas. \<forall>u \<in> set nueve_semanas.
                 semana t \<notin> set (map fst rep) \<longrightarrow> semana u \<in> set (map fst rep) \<longrightarrow>
                 anterior (fecha_creacion t) (fecha_creacion u)))"
    by (rule weekly_trend_by_week_key[OF c t])
qed

text \<open>
  Evaluation of the week key on the last day of 2022, a Saturday, and on the first
  day of 2023, the Sunday of the same Monday-to-Sunday week.
\<close>

lemma julian_day_2022_12_31: "julian_day \<lparr>year = 2022, month = 12, day = 31\<rparr> = 2459945"
  by (simp add: julian_day_def Let_def)
lemma julian_day_2023_01_01: "julian_day \<lparr>year = 2023, month = 1, day = 1\<rparr> = 2459946"
  by (simp add: julian_day_def Let_def)
lemma julian_day_2022_01_01: "julian_day \<lparr>year = 2022, month = 1, day = 1\<rparr> = 2459581"
  by (simp add: julian_day_def Let_def)

lemma strftime_W_2022_12_31: "strftime_W \<lparr>year = 2022, month = 12, day = 31\<rparr> = 52"
  by (simp add: strftime_W_def Let_def julian_day_2022_12_31 julian_day_2022_01_01)
lemma strftime_W_2023_01_01: "strftime_W \<lparr>year = 2023, month = 1, day = 1\<rparr> = 0"
  by (simp add: strftime_W_def Let_def julian_day_2023_01_01)

lemma decimal_2022: "decimal 2022 = ''2022''"
  by (simp add: decimal.simps[of 2022] decimal.simps[of 202] decimal.simps[of 20] decimal.simps[of 2] del: decimal.simps)
lemma decimal_2023: "decimal 2023 = ''2023''"
  by (simp add: decimal.simps[of 2023] decimal.simps[of 202] decimal.simps[of 20] decimal.simps[of 2] del: decimal.simps)
lemma decimal_52: "decimal 52 = ''52''"
  by (simp add: decimal.simps[of 52] decimal.simps[of 5] del: decimal.simps)
lemma decimal_0: "decimal 0 = ''0''"
  by simp

lemma strftime_YW_2022_12_31: "strftime_YW \<lparr>year = 2022, month = 12, day = 31\<rparr> = ''2022-52''"
  by (simp add: strftime_YW_def strftime_W_2022_12_31 decimal_2022 decimal_52 zfill_def del: decimal.simps)
lemma strftime_YW_2023_01_01: "strftime_YW \<lparr>year = 2023, month = 1, day = 1\<rparr> = ''2023-00''"
  by (simp add: strftime_YW_def strftime_W_2023_01_01 decimal_2023 decimal_0 zfill_def del: decimal.simps)

lemma claves_fin_de_anio_less: "Some ''2022-52'' < Some ''2023-00''"
  by (simp add: less_char_def)

lemma sort_claves_fin_de_anio:
  "sort [Some ''2022-52'', Some ''2023-00''] = [Some ''2022-52'', Some ''2023-00'']"
  using claves_fin_de_anio_less by (simp add: insort_is_Cons less_imp_le)

lemma tendencia_fin_de_anio:
  "tendencia_semanal tickets_fin_de_anio = [(Some ''2023-00'', 1, 0), (Some ''2022-52'', 1, 1)]"
  using sort_claves_fin_de_anio
  by (simp add: tendencia_semanal_def tickets_fin_de_anio_def ticket_creado_def ticket_ejemplo_def
        semana_def sqlite_date_ok_def strftime_YW_2022_12_31 strftime_YW_2023_01_01 es_resuelto_def
        del: decimal.simps)

lemma iso_week_fin_de_anio: "iso_week_monday \<lparr>year = 2022, month = 12, day = 31\<rparr> = 2459940 \<and> iso_week_monday \<lparr>year = 2023, month = 1, day = 1\<rparr> = 2459940"
  by (simp add: iso_week_monday_def julian_day_2022_12_31 julian_day_2023_01_01)

text \<open>
  Claim C8 as stated does not hold: the groups are not ISO weeks. Two tickets created
  on 2022-12-31 and on 2023-01-01 lie in one ISO week (the one of Monday
  2022-12-26), yet the report counts them under two keys, \<^verbatim>\<open>2022-52\<close> and
  \<^verbatim>\<open>2023-00\<close>, with one created ticket each; ISO 8601 has no week 00.
\<close>

theorem weekly_trend_not_iso_weeks:
  "reporte_semanal (analyzer_con tickets_fin_de_anio) =
     Inr [(Some ''2023-00'', 1, 0), (Some ''2022-52'', 1, 1)] \<and>
   map fecha_creacion tickets_fin_de_anio =
     [\<lparr>year = 2022, month = 12, day = 31\<rparr>, \<lparr>year = 2023, month = 1, day = 1\<rparr>] \<and>
   iso_week_monday \<lparr>year = 2022, month = 12, day = 31\<rparr> =
     iso_week_monday \<lparr>year = 2023, month = 1, day = 1\<rparr>"
  using tendencia_fin_de_anio iso_week_fin_de_anio
  by (simp add: reporte_semanal_def analyzer_con_def tickets_fin_de_anio_def ticket_creado_def
        ticket_ejemplo_def)

end
